theory Spec2Isabelle
  imports Main "HOL-Library.Multiset"
begin

section \<open>JavaScript values\<close>

text \<open>
  The values the handlers pass to \<open>res.json\<close> and the JSONB documents the driver hands
  back. An object is the list of its properties in insertion order. Numbers are the
  integers (no request of the API produces a fraction); a \<open>Date\<close> is its time value.
\<close>

datatype jsval =
    JUndefined
  | JNull
  | JBool bool
  | JNum int
  | JStr string
  | JDate int
  | JArr "jsval list"
  | JObj "(string \<times> jsval) list"

text \<open>JavaScript's ToBoolean, as \<open>!snapshot\<close> uses it.\<close>

fun truthy :: "jsval \<Rightarrow> bool" where
  "truthy JUndefined = False"
| "truthy JNull = False"
| "truthy (JBool b) = b"
| "truthy (JNum n) = (n \<noteq> 0)"
| "truthy (JStr s) = (s \<noteq> [])"
| "truthy (JDate t) = True"
| "truthy (JArr xs) = True"
| "truthy (JObj kvs) = True"

text \<open>
  A query parameter is absent (\<open>undefined\<close>) or a string; \<open>if (updatedAfter)\<close> holds for
  a non-empty string only.
\<close>

definition truthy_param :: "string option \<Rightarrow> bool" where
  "truthy_param v = (case v of None \<Rightarrow> False | Some s \<Rightarrow> s \<noteq> [])"

text \<open>Property access \<open>obj.key\<close>: \<open>undefined\<close> when the object has no such property.\<close>

fun property :: "jsval \<Rightarrow> string \<Rightarrow> jsval" where
  "property (JObj kvs) k = (case map_of kvs k of None \<Rightarrow> JUndefined | Some v \<Rightarrow> v)"
| "property v k = JUndefined"

fun keys :: "jsval \<Rightarrow> string list" where
  "keys (JObj kvs) = map fst kvs"
| "keys v = []"

section \<open>The table \<open>execution_protocols\<close> (db.js) and the domain entity\<close>

text \<open>
  One row of \<open>execution_protocols\<close>. \<open>id_col\<close>, \<open>status_col\<close> and \<open>snapshot_col\<close> are the
  columns \<open>id\<close> (the primary key), \<open>status\<close> and \<open>snapshot\<close>. A \<open>TIMESTAMPTZ\<close> column
  holds microseconds since the epoch; \<open>closed_at\<close> is the only nullable column.
\<close>

record row =
  id_col :: string
  site_id :: string
  plant_id :: string
  tenant_id :: string
  status_col :: string
  snapshot_col :: jsval
  created_at :: int
  closed_at :: "int option"
  updated_at :: int

text \<open>
  A selected row as the driver hands it to JavaScript: each timestamp column is a \<open>Date\<close>,
  whose time value is the stored microseconds cut to whole milliseconds. In such a row the
  three time fields are milliseconds.
\<close>

definition driver_row :: "row \<Rightarrow> row" where
  "driver_row r =
     r\<lparr> created_at := created_at r div 1000,
        closed_at := map_option (\<lambda>t. t div 1000) (closed_at r),
        updated_at := updated_at r div 1000 \<rparr>"

text \<open>
  The class \<open>ExecutionProtocol\<close>; \<open>protocolId\<close> is its field \<open>id\<close>. A field that
  \<open>fromRepositoryData\<close> can leave \<open>undefined\<close> is an option; its times are the
  milliseconds of a \<open>Date\<close>.
\<close>

record ExecutionProtocol =
  protocolId :: string
  siteId :: "string option"
  plantId :: "string option"
  tenantId :: "string option"
  status :: string
  createdAt :: int
  closedAt :: "int option"
  updatedAt :: int
  snapshot :: jsval

text \<open>
  \<open>data.site_id || data.siteId\<close> on a result row: the row has no property \<open>siteId\<close>, so an
  empty \<open>site_id\<close> (falsy) gives \<open>undefined\<close>. A \<open>Date\<close> is always truthy, a SQL NULL is
  \<open>null\<close> and falls through to \<open>undefined\<close>.
\<close>

definition or_camel :: "string \<Rightarrow> string option" where
  "or_camel s = (if s \<noteq> [] then Some s else None)"

definition fromRepositoryData :: "row \<Rightarrow> ExecutionProtocol" where
  "fromRepositoryData d =
     \<lparr> protocolId = id_col d,
       siteId = or_camel (site_id d),
       plantId = or_camel (plant_id d),
       tenantId = or_camel (tenant_id d),
       status = status_col d,
       createdAt = created_at d,
       closedAt = closed_at d,
       updatedAt = updated_at d,
       snapshot = snapshot_col d \<rparr>"

definition js_string :: "string option \<Rightarrow> jsval" where
  "js_string v = (case v of None \<Rightarrow> JUndefined | Some s \<Rightarrow> JStr s)"

definition js_date :: "int option \<Rightarrow> jsval" where
  "js_date v = (case v of None \<Rightarrow> JUndefined | Some t \<Rightarrow> JDate t)"

definition toListMetadata :: "ExecutionProtocol \<Rightarrow> jsval" where
  "toListMetadata p =
     JObj [(''id'', JStr (protocolId p)),
           (''siteId'', js_string (siteId p)),
           (''plantId'', js_string (plantId p)),
           (''status'', JStr (status p)),
           (''closedAt'', js_date (closedAt p)),
           (''updatedAt'', JDate (updatedAt p))]"

section \<open>The PostgreSQL pool\<close>

text \<open>
  What the repository needs of the database behind \<open>pool.query\<close>:
  whether a query reaches it at all, the rows of the table, the engine's implementation of
  \<open>ORDER BY updated_at ASC\<close> (SQL fixes the order of rows with equal keys in no way, so the
  sort is a parameter), and its input functions for the text of a \<open>timestamptz\<close> (read to
  microseconds) and of a \<open>uuid\<close> parameter (\<open>None\<close>: the text is refused).
\<close>

record pool =
  connected :: bool
  execution_protocols :: "row list"
  order_by_updated_at :: "row list \<Rightarrow> row list"
  timestamptz_in :: "string \<Rightarrow> int option"
  uuid_in :: "string \<Rightarrow> string option"

text \<open>The engine sorts: its result is a rearrangement of its input, ascending in \<open>updated_at\<close>.\<close>

definition sorts_by_updated_at :: "(row list \<Rightarrow> row list) \<Rightarrow> bool" where
  "sorts_by_updated_at ord =
     (\<forall>rows. mset (ord rows) = mset rows \<and> sorted (map updated_at (ord rows)))"

datatype error =
    ConnectionError
  | DatetimeInputError
  | InvalidTextRepresentation
  | NumericValueOutOfRange
  | InvalidRowCountInLimit
  | InvalidRowCountInOffset
  | NotImplemented string

text \<open>
  The WHERE clause of both polling queries: \<open>tenant_id = $1 AND status = $2\<close> with
  \<open>$2 = 'CLOSED'\<close>, and \<open>AND updated_at > $3\<close> when a cursor was pushed.
\<close>

definition polling_where :: "string \<Rightarrow> int option \<Rightarrow> row \<Rightarrow> bool" where
  "polling_where tenant cursor r =
     (tenant_id r = tenant \<and> status_col r = ''CLOSED'' \<and>
      (case cursor of None \<Rightarrow> True | Some c \<Rightarrow> updated_at r > c))"

text \<open>Binding the optional cursor parameter: its text goes through \<open>timestamptz_in\<close>.\<close>

definition bind_cursor :: "pool \<Rightarrow> string option \<Rightarrow> error + int option" where
  "bind_cursor db cursor =
     (case cursor of
        None \<Rightarrow> Inr None
      | Some s \<Rightarrow>
          (case timestamptz_in db s of
             None \<Rightarrow> Inl DatetimeInputError
           | Some c \<Rightarrow> Inr (Some c)))"

text \<open>
  LIMIT and OFFSET are \<open>bigint\<close> parameters, sent as the text JavaScript prints for the
  number: from 10^21 on that text has an exponent, which is no \<open>bigint\<close>; below, a number
  outside the 64-bit range is refused.
\<close>

definition bigint_in :: "int \<Rightarrow> error + int" where
  "bigint_in n =
     (if 10 ^ 21 \<le> \<bar>n\<bar> then Inl InvalidTextRepresentation
      else if n < - (2 ^ 63) \<or> 2 ^ 63 \<le> n then Inl NumericValueOutOfRange
      else Inr n)"

text \<open>
  The SELECT of \<open>getAllForPolling\<close>. The parameters are bound in their order (the cursor,
  the limit, the offset); then a negative OFFSET and a negative LIMIT are refused when the
  query starts. The rows come back through the driver.
\<close>

definition select_for_polling ::
  "pool \<Rightarrow> string \<Rightarrow> string option \<Rightarrow> int \<Rightarrow> int \<Rightarrow> error + row list" where
  "select_for_polling db tenant cursor lim off =
     (if \<not> connected db then Inl ConnectionError
      else case bind_cursor db cursor of
        Inl e \<Rightarrow> Inl e
      | Inr c \<Rightarrow>
          (case bigint_in lim of
             Inl e \<Rightarrow> Inl e
           | Inr l \<Rightarrow>
               (case bigint_in off of
                  Inl e \<Rightarrow> Inl e
                | Inr f \<Rightarrow>
                    if f < 0 then Inl InvalidRowCountInOffset
                    else if l < 0 then Inl InvalidRowCountInLimit
                    else Inr (map driver_row
                           (take (nat l) (drop (nat f)
                              (order_by_updated_at db
                                 (filter (polling_where tenant c)
                                    (execution_protocols db)))))))))"

text \<open>The \<open>SELECT COUNT(*)\<close> of \<open>getAllForPolling\<close>.\<close>

definition count_for_polling :: "pool \<Rightarrow> string \<Rightarrow> string option \<Rightarrow> error + int" where
  "count_for_polling db tenant cursor =
     (if \<not> connected db then Inl ConnectionError
      else case bind_cursor db cursor of
        Inl e \<Rightarrow> Inl e
      | Inr c \<Rightarrow> Inr (int (length (filter (polling_where tenant c) (execution_protocols db)))))"

text \<open>
  The query of \<open>getById\<close> and \<open>getSnapshotById\<close>:
  \<open>WHERE id = $1 AND tenant_id = $2 AND status = 'CLOSED'\<close>; the rows come back through the
  driver.
\<close>

definition select_by_id :: "pool \<Rightarrow> string \<Rightarrow> string \<Rightarrow> error + row list" where
  "select_by_id db ident tenant =
     (if \<not> connected db then Inl ConnectionError
      else case uuid_in db ident of
        None \<Rightarrow> Inl InvalidTextRepresentation
      | Some u \<Rightarrow>
          Inr (map driver_row
                 (filter (\<lambda>r. id_col r = u \<and> tenant_id r = tenant \<and> status_col r = ''CLOSED'')
                    (execution_protocols db))))"

section \<open>PostgresExecutionProtocolRepository\<close>

record poll_result =
  data :: "ExecutionProtocol list"
  total_count :: int

text \<open>
  \<open>getAllForPolling({ tenantId, updatedAfter, limit = 50, offset = 0 })\<close>; \<open>total_count\<close>
  is the property \<open>total\<close> of the result. The method sends the SELECT, then the count
  query; the table is the same for both.
\<close>

definition getAllForPolling ::
  "pool \<Rightarrow> string \<Rightarrow> string option \<Rightarrow> int option \<Rightarrow> int option \<Rightarrow> error + poll_result" where
  "getAllForPolling db tenant updatedAfter limit offset =
     (let lim = (case limit of None \<Rightarrow> 50 | Some l \<Rightarrow> l);
          off = (case offset of None \<Rightarrow> 0 | Some f \<Rightarrow> f);
          cappedLimit = min lim 100;
          cursor = (if truthy_param updatedAfter then updatedAfter else None)
      in case select_for_polling db tenant cursor cappedLimit off of
           Inl e \<Rightarrow> Inl e
         | Inr rows \<Rightarrow>
             (case count_for_polling db tenant cursor of
                Inl e \<Rightarrow> Inl e
              | Inr n \<Rightarrow>
                  Inr \<lparr> data = map (\<lambda>r. fromRepositoryData (r\<lparr>snapshot_col := JNull\<rparr>)) rows,
                        total_count = n \<rparr>))"

definition getById :: "pool \<Rightarrow> string \<Rightarrow> string \<Rightarrow> error + ExecutionProtocol option" where
  "getById db ident tenant =
     (case select_by_id db ident tenant of
        Inl e \<Rightarrow> Inl e
      | Inr rows \<Rightarrow>
          (case rows of
             [] \<Rightarrow> Inr None
           | r # rest \<Rightarrow> Inr (Some (fromRepositoryData r))))"

text \<open>\<open>getSnapshotById\<close> answers \<open>null\<close> or the snapshot document.\<close>

definition getSnapshotById :: "pool \<Rightarrow> string \<Rightarrow> string \<Rightarrow> error + jsval" where
  "getSnapshotById db ident tenant =
     (case select_by_id db ident tenant of
        Inl e \<Rightarrow> Inl e
      | Inr rows \<Rightarrow>
          (case rows of
             [] \<Rightarrow> Inr JNull
           | r # rest \<Rightarrow> Inr (snapshot_col r)))"

section \<open>The repository interface\<close>

record repository =
  repo_getAllForPolling ::
    "string \<Rightarrow> string option \<Rightarrow> int option \<Rightarrow> int option \<Rightarrow> error + poll_result"
  repo_getById :: "string \<Rightarrow> string \<Rightarrow> error + ExecutionProtocol option"
  repo_getSnapshotById :: "string \<Rightarrow> string \<Rightarrow> error + jsval"

text \<open>The abstract class: every method throws.\<close>

definition ExecutionProtocolRepository :: repository where
  "ExecutionProtocolRepository =
     \<lparr> repo_getAllForPolling = (\<lambda>tenant updatedAfter limit offset.
         Inl (NotImplemented ''Method getAllForPolling() must be implemented by subclass'')),
       repo_getById = (\<lambda>ident tenant.
         Inl (NotImplemented ''Method getById() must be implemented by subclass'')),
       repo_getSnapshotById = (\<lambda>ident tenant.
         Inl (NotImplemented ''Method getSnapshotById() must be implemented by subclass'')) \<rparr>"

definition PostgresExecutionProtocolRepository :: "pool \<Rightarrow> repository" where
  "PostgresExecutionProtocolRepository db =
     \<lparr> repo_getAllForPolling = getAllForPolling db,
       repo_getById = getById db,
       repo_getSnapshotById = getSnapshotById db \<rparr>"

section \<open>Validation utilities\<close>

text \<open>
  The regular expression of \<open>isValidUUID\<close>, flag \<open>i\<close>:
  \<open>^[0-9a-f]{8}-[0-9a-f]{4}-4[0-9a-f]{3}-[89ab][0-9a-f]{3}-[0-9a-f]{12}$\<close>,
  as the list of its 36 character classes.
\<close>

datatype char_class = Hex | Dash | Four | Variant

definition in_class :: "char_class \<Rightarrow> char \<Rightarrow> bool" where
  "in_class k c =
     (case k of
        Hex \<Rightarrow> c \<in> set ''0123456789abcdefABCDEF''
      | Dash \<Rightarrow> c = CHR ''-''
      | Four \<Rightarrow> c = CHR ''4''
      | Variant \<Rightarrow> c \<in> set ''89abAB'')"

definition uuidRegex :: "char_class list" where
  "uuidRegex =
     replicate 8 Hex @ [Dash] @ replicate 4 Hex @ [Dash, Four] @ replicate 3 Hex @
     [Dash, Variant] @ replicate 3 Hex @ [Dash] @ replicate 12 Hex"

definition isValidUUID :: "string \<Rightarrow> bool" where
  "isValidUUID ident = (if ident = [] then False else list_all2 in_class uuidRegex ident)"

text \<open>
  \<open>parseInt(s, 10)\<close>: leading white space is skipped, then an optional sign, then the
  longest run of decimal digits is read; no digit gives NaN (\<open>None\<close>). A text is a list
  of characters below 256: the white space among them is the space, the characters 9 to 13
  and the no-break space. The result is a Number: \<open>to_double\<close> rounds an integer to the
  nearest double, ties to the even mantissa.
\<close>

definition is_space :: "char \<Rightarrow> bool" where
  "is_space c =
     (c \<in> set [CHR '' '', CHR 0x09, CHR 0x0A, CHR 0x0B, CHR 0x0C, CHR 0x0D, CHR 0xA0])"

definition round_at :: "nat \<Rightarrow> int \<Rightarrow> int" where
  "round_at e a =
     (let q = a div 2 ^ e; r = a mod 2 ^ e
      in (if 2 ^ e < 2 * r \<or> (2 * r = 2 ^ e \<and> odd q) then q + 1 else q) * 2 ^ e)"

function bit_length :: "int \<Rightarrow> nat" where
  "bit_length a = (if a \<le> 0 then 0 else Suc (bit_length (a div 2)))"
  by pat_completeness auto
termination
  by (relation "measure nat") auto

declare bit_length.simps [simp del]

definition to_double :: "int \<Rightarrow> int" where
  "to_double n =
     (if \<bar>n\<bar> < 2 ^ 53 then n
      else sgn n * round_at (bit_length \<bar>n\<bar> - 53) \<bar>n\<bar>)"

definition digit_of :: "char \<Rightarrow> int option" where
  "digit_of = map_of [(CHR ''0'', 0), (CHR ''1'', 1), (CHR ''2'', 2), (CHR ''3'', 3),
     (CHR ''4'', 4), (CHR ''5'', 5), (CHR ''6'', 6), (CHR ''7'', 7), (CHR ''8'', 8),
     (CHR ''9'', 9)]"

fun digits :: "int \<Rightarrow> string \<Rightarrow> int" where
  "digits acc [] = acc"
| "digits acc (c # cs) =
     (case digit_of c of None \<Rightarrow> acc | Some d \<Rightarrow> digits (10 * acc + d) cs)"

definition parseInt :: "string \<Rightarrow> int option" where
  "parseInt s =
     (case dropWhile is_space s of
        [] \<Rightarrow> None
      | c # cs \<Rightarrow>
          (let neg = (c = CHR ''-'');
               body = (if c = CHR ''-'' \<or> c = CHR ''+'' then cs else c # cs)
           in case body of
                [] \<Rightarrow> None
              | d # ds \<Rightarrow>
                  (if digit_of d = None then None
                   else Some (to_double ((if neg then - 1 else 1) * digits 0 body)))))"

text \<open>\<open>n || d\<close> for a number: NaN and 0 are falsy.\<close>

definition or_default :: "int option \<Rightarrow> int \<Rightarrow> int" where
  "or_default n d = (case n of None \<Rightarrow> d | Some v \<Rightarrow> if v = 0 then d else v)"

section \<open>The validity of a \<open>Date\<close>\<close>

text \<open>
  \<open>Date_isNaN fallback s\<close> is \<open>isNaN(new Date(s).getTime())\<close>. A text of the form
  \<open>YYYY-MM-DDTHH:mm:ssZ\<close> or \<open>YYYY-MM-DDTHH:mm:ss.sssZ\<close> is read by its numbers: Node's
  engine accepts it when the month is 1 to 12, the day is 1 to 31 (a day past the end of
  the month runs over into the next month) and the time is at most 23:59:59, or is
  24:00:00.000; otherwise the time value is NaN. The empty text gives NaN. Every other
  text is left to \<open>fallback\<close>, the engine's reading of its other formats (\<open>None\<close> for NaN).
\<close>

datatype date_char = Digit | Sep char

definition is_date_char :: "date_char \<Rightarrow> char \<Rightarrow> bool" where
  "is_date_char k c = (case k of Digit \<Rightarrow> digit_of c \<noteq> None | Sep x \<Rightarrow> c = x)"

definition seconds_shape :: "date_char list" where
  "seconds_shape =
     replicate 4 Digit @ [Sep CHR ''-''] @ replicate 2 Digit @ [Sep CHR ''-''] @
     replicate 2 Digit @ [Sep CHR ''T''] @ replicate 2 Digit @ [Sep CHR '':''] @
     replicate 2 Digit @ [Sep CHR '':''] @ replicate 2 Digit"

definition iso_shaped :: "string \<Rightarrow> bool" where
  "iso_shaped s =
     (list_all2 is_date_char (seconds_shape @ [Sep CHR ''Z'']) s \<or>
      list_all2 is_date_char
        (seconds_shape @ [Sep CHR ''.''] @ replicate 3 Digit @ [Sep CHR ''Z'']) s)"

definition field :: "nat \<Rightarrow> nat \<Rightarrow> string \<Rightarrow> int" where
  "field i n s = digits 0 (take n (drop i s))"

definition iso_fields_valid :: "string \<Rightarrow> bool" where
  "iso_fields_valid s =
     (let month = field 5 2 s; day = field 8 2 s;
          hour = field 11 2 s; minute = field 14 2 s; second = field 17 2 s;
          ms = (if length s = 24 then field 20 3 s else 0)
      in 1 \<le> month \<and> month \<le> 12 \<and> 1 \<le> day \<and> day \<le> 31 \<and>
         (hour \<le> 23 \<and> minute \<le> 59 \<and> second \<le> 59 \<or>
          hour = 24 \<and> minute = 0 \<and> second = 0 \<and> ms = 0))"

definition Date_isNaN :: "(string \<Rightarrow> int option) \<Rightarrow> string \<Rightarrow> bool" where
  "Date_isNaN fallback s =
     (if s = [] then True
      else if iso_shaped s then \<not> iso_fields_valid s
      else fallback s = None)"

section \<open>ExecutionProtocolController\<close>

text \<open>
  A request as the handlers read it: \<open>req.tenantId\<close> (set by the authentication
  middleware, or missing), the three query parameters and \<open>req.params.id\<close>.
\<close>

record request =
  req_tenantId :: "string option"
  query_updatedAfter :: "string option"
  query_limit :: "string option"
  query_offset :: "string option"
  params_id :: string

record response =
  status_code :: nat
  body :: jsval

text \<open>The repository methods a handler calls, in order, with their arguments.\<close>

datatype repo_call =
    CallGetAllForPolling string "string option" int int
  | CallGetById string string
  | CallGetSnapshotById string string

definition error_response :: "nat \<Rightarrow> string \<Rightarrow> string \<Rightarrow> response" where
  "error_response code err msg =
     \<lparr> status_code = code, body = JObj [(''error'', JStr err), (''message'', JStr msg)] \<rparr>"

definition parsedLimit :: "request \<Rightarrow> int" where
  "parsedLimit req =
     min (or_default (parseInt (case query_limit req of None \<Rightarrow> ''50'' | Some s \<Rightarrow> s)) 50) 100"

definition parsedOffset :: "request \<Rightarrow> int" where
  "parsedOffset req =
     max (or_default (parseInt (case query_offset req of None \<Rightarrow> ''0'' | Some s \<Rightarrow> s)) 0) 0"

text \<open>
  \<open>controller_getAllForPolling\<close> is the handler \<open>getAllForPolling\<close>; \<open>fallback\<close> is the
  parameter of \<open>Date_isNaN\<close>.
\<close>

definition controller_getAllForPolling ::
  "(string \<Rightarrow> int option) \<Rightarrow> repository \<Rightarrow> request \<Rightarrow> repo_call list \<times> response" where
  "controller_getAllForPolling fallback repo req =
     (if \<not> truthy_param (req_tenantId req) then
        ([], error_response 401 ''Unauthorized'' ''Missing tenant context'')
      else
        let tenant = the (req_tenantId req);
            updatedAfter = query_updatedAfter req
        in if truthy_param updatedAfter \<and> Date_isNaN fallback (the updatedAfter) then
             ([], error_response 400 ''Bad request''
                ''Invalid updatedAfter format. Use ISO 8601 timestamp (e.g., 2026-02-15T10:00:00Z)'')
           else
             ([CallGetAllForPolling tenant updatedAfter (parsedLimit req) (parsedOffset req)],
              case repo_getAllForPolling repo tenant updatedAfter
                     (Some (parsedLimit req)) (Some (parsedOffset req)) of
                Inl e \<Rightarrow>
                  error_response 500 ''Internal server error''
                    ''Failed to retrieve execution protocols''
              | Inr result \<Rightarrow>
                  \<lparr> status_code = 200,
                    body = JObj [(''protocols'', JArr (map toListMetadata (data result))),
                                 (''pagination'',
                                    JObj [(''limit'', JNum (parsedLimit req)),
                                          (''offset'', JNum (parsedOffset req)),
                                          (''total'', JNum (total_count result))])] \<rparr>))"

text \<open>\<open>controller_getById\<close> is the handler \<open>getById\<close> (GET /:id).\<close>

definition controller_getById :: "repository \<Rightarrow> request \<Rightarrow> repo_call list \<times> response" where
  "controller_getById repo req =
     (let ident = params_id req in
      if \<not> truthy_param (req_tenantId req) then
        ([], error_response 401 ''Unauthorized'' ''Missing tenant context'')
      else if \<not> isValidUUID ident then
        ([], error_response 404 ''Not found'' ''Invalid protocol ID format'')
      else
        let tenant = the (req_tenantId req) in
        ([CallGetSnapshotById ident tenant],
         case repo_getSnapshotById repo ident tenant of
           Inl e \<Rightarrow>
             error_response 500 ''Internal server error''
               ''Failed to retrieve execution protocol''
         | Inr snap \<Rightarrow>
             if \<not> truthy snap then
               error_response 404 ''Not found'' ''Execution protocol not found''
             else \<lparr> status_code = 200, body = snap \<rparr>))"

text \<open>
  \<open>controller_getSnapshotById\<close> is the handler \<open>getSnapshotById\<close> (GET /:id/snapshot).
\<close>

definition controller_getSnapshotById ::
  "repository \<Rightarrow> request \<Rightarrow> repo_call list \<times> response" where
  "controller_getSnapshotById repo req =
     (let ident = params_id req in
      if \<not> truthy_param (req_tenantId req) then
        ([], error_response 401 ''Unauthorized'' ''Missing tenant context'')
      else if \<not> isValidUUID ident then
        ([], error_response 404 ''Not found'' ''Invalid protocol ID format'')
      else
        let tenant = the (req_tenantId req) in
        ([CallGetSnapshotById ident tenant],
         case repo_getSnapshotById repo ident tenant of
           Inl e \<Rightarrow>
             error_response 500 ''Internal server error''
               ''Failed to retrieve execution protocol snapshot''
         | Inr snap \<Rightarrow>
             if \<not> truthy snap then
               error_response 404 ''Not found'' ''Execution protocol not found''
             else \<lparr> status_code = 200, body = snap \<rparr>))"

section \<open>Routes\<close>

text \<open>
  \<open>createExecutionProtocolRoutes\<close>: the three GET routes of the router, each bound to
  one handler. The router first runs the authentication middleware, which answers by
  itself, calling no repository method, unless it sets \<open>req.tenantId\<close>; the definition is
  the dispatch of the requests it lets through.
\<close>

datatype route = Root | ById | ByIdSnapshot

definition createExecutionProtocolRoutes ::
  "(string \<Rightarrow> int option) \<Rightarrow> repository \<Rightarrow> route \<Rightarrow> request \<Rightarrow> repo_call list \<times> response" where
  "createExecutionProtocolRoutes fallback repo rt =
     (case rt of
        Root \<Rightarrow> controller_getAllForPolling fallback repo
      | ById \<Rightarrow> controller_getById repo
      | ByIdSnapshot \<Rightarrow> controller_getSnapshotById repo)"

section \<open>The seed script\<close>

text \<open>
  \<open>generateSeedData\<close> of scripts/seedDatabase.js: five CLOSED records of two tenants, their
  snapshot documents abridged to the properties \<open>id\<close> and \<open>status\<close>. The script's times are
  \<open>Date\<close>s, given here by their milliseconds since the epoch; the table stores them as
  microseconds.
\<close>

definition seed_record ::
  "string \<Rightarrow> string \<Rightarrow> string \<Rightarrow> string \<Rightarrow> int \<Rightarrow> int \<Rightarrow> int \<Rightarrow> row" where
  "seed_record ident site plant tenant created closed updated =
     \<lparr> id_col = ident, site_id = site, plant_id = plant, tenant_id = tenant,
       status_col = ''CLOSED'',
       snapshot_col = JObj [(''id'', JStr ident), (''status'', JStr ''CLOSED'')],
       created_at = created * 1000, closed_at = Some (closed * 1000),
       updated_at = updated * 1000 \<rparr>"

definition baseDate :: int where
  "baseDate = 1769904000000"

definition generateSeedData :: "row list" where
  "generateSeedData =
     [seed_record ''550e8400-e29b-41d4-a716-446655440001'' ''L3'' ''T17'' ''tenant-acme''
        1768464000000 1768473000000 (baseDate + 1 * 86400000),
      seed_record ''550e8400-e29b-41d4-a716-446655440002'' ''L3'' ''T18'' ''tenant-acme''
        1769936400000 1769946300000 (baseDate + 5 * 86400000),
      seed_record ''550e8400-e29b-41d4-a716-446655440003'' ''L5'' ''T22'' ''tenant-globex''
        1770732000000 1770736800000 (baseDate + 10 * 86400000),
      seed_record ''550e8400-e29b-41d4-a716-446655440004'' ''L8'' ''T31'' ''tenant-acme''
        1770890400000 1770898500000 (baseDate + 12 * 86400000),
      seed_record ''550e8400-e29b-41d4-a716-446655440005'' ''L5'' ''T23'' ''tenant-globex''
        1771057800000 1771063200000 (baseDate + 14 * 86400000)]"

text \<open>
  For the examples: a \<open>timestamptz\<close> input that reads the four texts the examples use, to
  microseconds, and refuses every other text the examples send (the empty text, and
  \<open>2026-02-30T00:00:00Z\<close>, which names no day); and a database holding \<open>rows\<close> that sorts
  with a stable insertion sort and takes a uuid's text as it is.
\<close>

definition example_timestamptz :: "string \<Rightarrow> int option" where
  "example_timestamptz =
     map_of [(''2026-02-02T00:00:00.000Z'', 1769990400000000),
             (''2026-02-05T00:00:00Z'', 1770249600000000),
             (''2026-02-06T00:00:00.000Z'', 1770336000000000),
             (''2026-02-20T00:00:00Z'', 1771545600000000)]"

definition example_pool :: "row list \<Rightarrow> pool" where
  "example_pool rows =
     \<lparr> connected = True, execution_protocols = rows,
       order_by_updated_at = sort_key updated_at,
       timestamptz_in = example_timestamptz,
       uuid_in = Some \<rparr>"

text \<open>
  Another admissible engine: it sorts by \<open>updated_at\<close> too, and leaves rows of equal
  \<open>updated_at\<close> in the reverse of their stored order.
\<close>

definition sort_ties_reversed :: "row list \<Rightarrow> row list" where
  "sort_ties_reversed rows = sort_key updated_at (rev rows)"

text \<open>A record that is not finalized yet, and a second record closed at the same instant as
  the first seed record.\<close>

definition draft_record :: row where
  "draft_record =
     (seed_record ''550e8400-e29b-41d4-a716-446655440009'' ''L3'' ''T17'' ''tenant-acme''
        1768464000000 1768473000000 (baseDate + 2 * 86400000))\<lparr>status_col := ''IN_PROGRESS''\<rparr>"

definition tied_record :: row where
  "tied_record =
     seed_record ''550e8400-e29b-41d4-a716-446655440000'' ''L3'' ''T19'' ''tenant-acme''
        1768464000000 1768473000000 (baseDate + 1 * 86400000)"


text \<open>An implementation of \<open>Date\<close> whose fallback reads no text, for the examples.\<close>

definition no_fallback :: "string \<Rightarrow> int option" where
  "no_fallback s = None"

definition example_request :: "string \<Rightarrow> request" where
  "example_request tenant =
     \<lparr> req_tenantId = Some tenant, query_updatedAfter = None, query_limit = None,
       query_offset = None, params_id = ''550e8400-e29b-41d4-a716-446655440001'' \<rparr>"

section \<open>Basic facts about the queries\<close>

lemma bigint_in_Inr: "bigint_in n = Inr m \<Longrightarrow> m = n"
  by (simp add: bigint_in_def split: if_splits)

lemma getAllForPolling_success:
  assumes "getAllForPolling db tenant updatedAfter limit offset = Inr res"
  obtains c where
    "connected db"
    "bind_cursor db (if truthy_param updatedAfter then updatedAfter else None) = Inr c"
    "0 \<le> min (case limit of None \<Rightarrow> 50 | Some l \<Rightarrow> l) 100"
    "0 \<le> (case offset of None \<Rightarrow> 0 | Some f \<Rightarrow> f)"
    "data res = map (\<lambda>r. fromRepositoryData ((driver_row r)\<lparr>snapshot_col := JNull\<rparr>))
       (take (nat (min (case limit of None \<Rightarrow> 50 | Some l \<Rightarrow> l) 100))
         (drop (nat (case offset of None \<Rightarrow> 0 | Some f \<Rightarrow> f))
           (order_by_updated_at db (filter (polling_where tenant c) (execution_protocols db)))))"
    "total_count res = int (length (filter (polling_where tenant c) (execution_protocols db)))"
  using assms
  unfolding getAllForPolling_def select_for_polling_def count_for_polling_def Let_def
  by (auto simp: o_def dest!: bigint_in_Inr split: if_splits sum.splits)

lemma polling_where_None:
  "polling_where t None = (\<lambda>r. tenant_id r = t \<and> status_col r = ''CLOSED'')"
  by (simp add: polling_where_def fun_eq_iff)

lemma polling_where_Some:
  "polling_where t (Some c) =
     (\<lambda>r. tenant_id r = t \<and> status_col r = ''CLOSED'' \<and> c < updated_at r)"
  by (simp add: polling_where_def fun_eq_iff)

lemma bind_cursor_absent:
  assumes "\<not> truthy_param updatedAfter"
    and "bind_cursor db (if truthy_param updatedAfter then updatedAfter else None) = Inr c"
  shows "c = None"
  using assms by (simp add: bind_cursor_def)

lemma bind_cursor_present:
  assumes "s \<noteq> []"
    and "bind_cursor db (if truthy_param (Some s) then Some s else None) = Inr c"
  shows "timestamptz_in db s = c \<and> (\<exists>t. c = Some t)"
proof (cases "timestamptz_in db s")
  case None
  with assms show ?thesis by (simp add: bind_cursor_def truthy_param_def)
next
  case (Some t)
  with assms have "c = Some t" by (simp add: bind_cursor_def truthy_param_def)
  with Some show ?thesis by simp
qed

lemma driver_row_simps:
  "id_col (driver_row r) = id_col r"
  "tenant_id (driver_row r) = tenant_id r"
  "status_col (driver_row r) = status_col r"
  "snapshot_col (driver_row r) = snapshot_col r"
  "updated_at (driver_row r) = updated_at r div 1000"
  by (simp_all add: driver_row_def)

lemma fromRepositoryData_simps:
  "protocolId (fromRepositoryData r) = id_col r"
  "status (fromRepositoryData r) = status_col r"
  "updatedAt (fromRepositoryData r) = updated_at r"
  "snapshot (fromRepositoryData r) = snapshot_col r"
  by (simp_all add: fromRepositoryData_def)

lemma Postgres_methods:
  "repo_getAllForPolling (PostgresExecutionProtocolRepository db) = getAllForPolling db"
  "repo_getById (PostgresExecutionProtocolRepository db) = getById db"
  "repo_getSnapshotById (PostgresExecutionProtocolRepository db) = getSnapshotById db"
  by (simp_all add: PostgresExecutionProtocolRepository_def)


section \<open>The engine's sort and the primary key\<close>

lemma sorts_set: "sorts_by_updated_at ord \<Longrightarrow> set (ord rows) = set rows"
  unfolding sorts_by_updated_at_def by (metis mset_eq_setD)

lemma sorts_sorted: "sorts_by_updated_at ord \<Longrightarrow> sorted (map updated_at (ord rows))"
  unfolding sorts_by_updated_at_def by simp

lemma sort_key_sorts: "sorts_by_updated_at (sort_key updated_at)"
  unfolding sorts_by_updated_at_def by simp

lemma sort_ties_reversed_sorts: "sorts_by_updated_at sort_ties_reversed"
  unfolding sorts_by_updated_at_def sort_ties_reversed_def by simp

lemma example_pool_sorts: "sorts_by_updated_at (order_by_updated_at (example_pool rows))"
  by (simp add: example_pool_def sort_key_sorts)

text \<open>Every item of a successful poll is built from a stored row that passes the WHERE clause.\<close>

lemma polled_item_row:
  assumes ok: "getAllForPolling db tenant updatedAfter limit offset = Inr res"
    and ord: "sorts_by_updated_at (order_by_updated_at db)"
    and p: "p \<in> set (data res)"
  obtains r c where
    "bind_cursor db (if truthy_param updatedAfter then updatedAfter else None) = Inr c"
    "r \<in> set (execution_protocols db)" "polling_where tenant c r"
    "p = fromRepositoryData ((driver_row r)\<lparr>snapshot_col := JNull\<rparr>)"
proof -
  from ok obtain c where
    c: "bind_cursor db (if truthy_param updatedAfter then updatedAfter else None) = Inr c"
    and d: "data res = map (\<lambda>r. fromRepositoryData ((driver_row r)\<lparr>snapshot_col := JNull\<rparr>))
       (take (nat (min (case limit of None \<Rightarrow> 50 | Some l \<Rightarrow> l) 100))
         (drop (nat (case offset of None \<Rightarrow> 0 | Some f \<Rightarrow> f))
           (order_by_updated_at db (filter (polling_where tenant c) (execution_protocols db)))))"
    by (rule getAllForPolling_success)
  from p d obtain r where
    r: "r \<in> set (take (nat (min (case limit of None \<Rightarrow> 50 | Some l \<Rightarrow> l) 100))
         (drop (nat (case offset of None \<Rightarrow> 0 | Some f \<Rightarrow> f))
           (order_by_updated_at db (filter (polling_where tenant c) (execution_protocols db)))))"
    and pr: "p = fromRepositoryData ((driver_row r)\<lparr>snapshot_col := JNull\<rparr>)"
    by auto
  from r have "r \<in> set (order_by_updated_at db
      (filter (polling_where tenant c) (execution_protocols db)))"
    by (blast dest: in_set_takeD in_set_dropD)
  with ord have "r \<in> set (filter (polling_where tenant c) (execution_protocols db))"
    by (simp only: sorts_set)
  then have rr: "r \<in> set (execution_protocols db)" and w: "polling_where tenant c r"
    by simp_all
  show thesis by (rule that [OF c rr w pr])
qed

text \<open>Cutting to milliseconds keeps the order.\<close>

lemma sorted_map_div: "sorted (ts :: int list) \<Longrightarrow> sorted (map (\<lambda>t. t div 1000) ts)"
  by (induction ts) (auto intro: zdiv_mono1)



lemma primary_key:
  assumes "distinct (map id_col rows)" "r \<in> set rows" "r' \<in> set rows" "id_col r = id_col r'"
  shows "r = r'"
  using assms by (meson distinct_map inj_onD)

section \<open>Rows a tenant cannot see\<close>

lemma filter_removeAll_other:
  "\<not> P x \<Longrightarrow> filter P (removeAll x xs) = filter P xs"
  by (induction xs) auto

lemma bind_cursor_rows:
  "bind_cursor (db\<lparr>execution_protocols := rows\<rparr>) cursor = bind_cursor db cursor"
  by (simp add: bind_cursor_def split: option.split)

text \<open>
  A row of another tenant, or one that is not CLOSED, can be deleted without changing the
  result of any query the repository sends for the tenant.
\<close>

lemma select_for_polling_invisible:
  assumes "tenant_id R \<noteq> tenant \<or> status_col R \<noteq> ''CLOSED''"
  shows "select_for_polling (db\<lparr>execution_protocols := removeAll R (execution_protocols db)\<rparr>)
           tenant cursor lim off = select_for_polling db tenant cursor lim off"
proof -
  have "filter (polling_where tenant c) (removeAll R (execution_protocols db)) =
        filter (polling_where tenant c) (execution_protocols db)" for c
    using assms by (intro filter_removeAll_other) (auto simp: polling_where_def)
  then show ?thesis by (simp add: select_for_polling_def bind_cursor_rows split: sum.split)
qed

lemma count_for_polling_invisible:
  assumes "tenant_id R \<noteq> tenant \<or> status_col R \<noteq> ''CLOSED''"
  shows "count_for_polling (db\<lparr>execution_protocols := removeAll R (execution_protocols db)\<rparr>)
           tenant cursor = count_for_polling db tenant cursor"
proof -
  have "filter (polling_where tenant c) (removeAll R (execution_protocols db)) =
        filter (polling_where tenant c) (execution_protocols db)" for c
    using assms by (intro filter_removeAll_other) (auto simp: polling_where_def)
  then show ?thesis by (simp add: count_for_polling_def bind_cursor_rows split: sum.split)
qed

lemma select_by_id_invisible:
  assumes "tenant_id R \<noteq> tenant \<or> status_col R \<noteq> ''CLOSED''"
  shows "select_by_id (db\<lparr>execution_protocols := removeAll R (execution_protocols db)\<rparr>)
           ident tenant = select_by_id db ident tenant"
proof -
  have "filter (\<lambda>r. id_col r = u \<and> tenant_id r = tenant \<and> status_col r = ''CLOSED'')
          (removeAll R (execution_protocols db)) =
        filter (\<lambda>r. id_col r = u \<and> tenant_id r = tenant \<and> status_col r = ''CLOSED'')
          (execution_protocols db)" for u
    using assms by (intro filter_removeAll_other) auto
  then show ?thesis by (simp add: select_by_id_def split: option.split)
qed

lemma repository_invisible:
  assumes "tenant_id R \<noteq> tenant \<or> status_col R \<noteq> ''CLOSED''"
  shows "getAllForPolling (db\<lparr>execution_protocols := removeAll R (execution_protocols db)\<rparr>)
           tenant updatedAfter limit offset = getAllForPolling db tenant updatedAfter limit offset"
    and "getById (db\<lparr>execution_protocols := removeAll R (execution_protocols db)\<rparr>)
           ident tenant = getById db ident tenant"
    and "getSnapshotById (db\<lparr>execution_protocols := removeAll R (execution_protocols db)\<rparr>)
           ident tenant = getSnapshotById db ident tenant"
  by (simp_all only: getAllForPolling_def getById_def getSnapshotById_def
      select_for_polling_invisible [OF assms] count_for_polling_invisible [OF assms]
      select_by_id_invisible [OF assms])

text \<open>No row with the key of a row that fails the clause of \<open>select_by_id\<close> is selected.\<close>

lemma select_by_id_hidden:
  assumes pk: "distinct (map id_col (execution_protocols db))"
    and R: "R \<in> set (execution_protocols db)"
    and hidden: "tenant_id R \<noteq> tenant \<or> status_col R \<noteq> ''CLOSED''"
    and up: "connected db" and u: "uuid_in db ident = Some (id_col R)"
  shows "select_by_id db ident tenant = Inr []"
proof -
  have "\<not> (id_col r = id_col R \<and> tenant_id r = tenant \<and> status_col r = ''CLOSED'')"
    if "r \<in> set (execution_protocols db)" for r
    using primary_key [OF pk that R] hidden by auto
  then have "filter (\<lambda>r. id_col r = id_col R \<and> tenant_id r = tenant \<and> status_col r = ''CLOSED'')
               (execution_protocols db) = []"
    by (simp add: filter_empty_conv)
  with up u show ?thesis by (simp add: select_by_id_def)
qed

section \<open>Basic facts about the handlers\<close>

text \<open>Numbers below 2^53 are doubles; beyond, \<open>parseInt\<close> rounds.\<close>

lemma to_double_small: "\<bar>n\<bar> < 2 ^ 53 \<Longrightarrow> to_double n = n"
  by (simp add: to_double_def)

lemma to_double_examples:
  "to_double 9007199254740993 = 9007199254740992"
  "to_double 9007199254740995 = 9007199254740996"
  "to_double 9223372036854775807 = 9223372036854775808"
  "parseInt (CHR 0xA0 # ''7'') = Some 7"
  by code_simp+

text \<open>\<open>Date\<close> reads no empty text.\<close>

lemma Date_isNaN_empty: "Date_isNaN fallback []"
  by (simp add: Date_isNaN_def)

text \<open>What the normalization of \<open>limit\<close> and \<open>offset\<close> does achieve.\<close>

lemma parsedLimit_at_most_100: "parsedLimit req \<le> 100"
  by (simp add: parsedLimit_def)

lemma parsedOffset_not_negative: "0 \<le> parsedOffset req"
  by (simp add: parsedOffset_def)

lemma parsedLimit_of_positive:
  assumes "query_limit req = Some s" "parseInt s = Some n" "0 < n"
  shows "parsedLimit req = min n 100" "1 \<le> parsedLimit req"
  using assms by (simp_all add: parsedLimit_def or_default_def)


lemma toListMetadata_shape:
  "keys (toListMetadata p) = [''id'', ''siteId'', ''plantId'', ''status'', ''closedAt'', ''updatedAt'']"
  "property (toListMetadata p) ''id'' = JStr (protocolId p)"
  "property (toListMetadata p) ''siteId'' = js_string (siteId p)"
  "property (toListMetadata p) ''plantId'' = js_string (plantId p)"
  "property (toListMetadata p) ''status'' = JStr (status p)"
  "property (toListMetadata p) ''closedAt'' = js_date (closedAt p)"
  "property (toListMetadata p) ''updatedAt'' = JDate (updatedAt p)"
  "property (toListMetadata p) ''snapshot'' = JUndefined"
  by (simp_all add: toListMetadata_def)

text \<open>The list handler answers 200 exactly when the repository call returns.\<close>

lemma list_handler_ok:
  assumes "status_code (snd (controller_getAllForPolling fallback repo req)) = 200"
  obtains result where
    "repo_getAllForPolling repo (the (req_tenantId req)) (query_updatedAfter req)
       (Some (parsedLimit req)) (Some (parsedOffset req)) = Inr result"
    "controller_getAllForPolling fallback repo req =
       ([CallGetAllForPolling (the (req_tenantId req)) (query_updatedAfter req)
           (parsedLimit req) (parsedOffset req)],
        \<lparr> status_code = 200,
          body = JObj [(''protocols'', JArr (map toListMetadata (data result))),
                       (''pagination'',
                          JObj [(''limit'', JNum (parsedLimit req)),
                                (''offset'', JNum (parsedOffset req)),
                                (''total'', JNum (total_count result))])] \<rparr>)"
  using assms
  by (auto simp: controller_getAllForPolling_def error_response_def Let_def
      split: if_splits sum.splits)

lemma snapshot_handlers_failure:
  assumes "truthy_param (req_tenantId req)" "isValidUUID (params_id req)"
    and "repo_getSnapshotById repo (params_id req) (the (req_tenantId req)) = Inl e"
  shows "controller_getById repo req =
          ([CallGetSnapshotById (params_id req) (the (req_tenantId req))],
           error_response 500 ''Internal server error''
             ''Failed to retrieve execution protocol'')"
    and "controller_getSnapshotById repo req =
          ([CallGetSnapshotById (params_id req) (the (req_tenantId req))],
           error_response 500 ''Internal server error''
             ''Failed to retrieve execution protocol snapshot'')"
  using assms by (simp_all add: controller_getById_def controller_getSnapshotById_def Let_def)

lemma snapshot_handlers_agree:
  assumes "\<not> (truthy_param (req_tenantId req) \<and> isValidUUID (params_id req) \<and>
      (\<exists>e. repo_getSnapshotById repo (params_id req) (the (req_tenantId req)) = Inl e))"
  shows "controller_getById repo req = controller_getSnapshotById repo req \<and>
         status_code (snd (controller_getById repo req)) \<noteq> 500"
proof (cases "repo_getSnapshotById repo (params_id req) (the (req_tenantId req))")
  case (Inl e)
  with assms show ?thesis
    by (auto simp: controller_getById_def controller_getSnapshotById_def error_response_def
        Let_def)
next
  case (Inr snap)
  then show ?thesis
    by (simp add: controller_getById_def controller_getSnapshotById_def error_response_def
        Let_def)
qed

section \<open>The seeded database, evaluated\<close>

lemmas seed_defs =
  example_pool_def example_timestamptz_def generateSeedData_def seed_record_def baseDate_def
  draft_record_def tied_record_def

lemmas query_defs =
  driver_row_def getAllForPolling_def select_for_polling_def count_for_polling_def bind_cursor_def
  bigint_in_def
  truthy_param_def polling_where_def getById_def getSnapshotById_def select_by_id_def

lemmas handler_defs =
  controller_getAllForPolling_def controller_getById_def controller_getSnapshotById_def
  createExecutionProtocolRoutes_def error_response_def parsedLimit_def parsedOffset_def
  parseInt_def to_double_def or_default_def is_space_def digit_of_def example_request_def

lemma seed_list_acme:
  "getAllForPolling (example_pool generateSeedData) ''tenant-acme'' None None None =
   Inr \<lparr> data = map (\<lambda>r. fromRepositoryData ((driver_row r)\<lparr>snapshot_col := JNull\<rparr>))
                  [generateSeedData ! 0, generateSeedData ! 1, generateSeedData ! 3],
         total_count = 3 \<rparr>"
  by (simp add: query_defs seed_defs)


lemma seed_page_after_feb5:
  "getAllForPolling (example_pool generateSeedData) ''tenant-acme''
     (Some ''2026-02-05T00:00:00Z'') (Some 1) (Some 1) =
   Inr \<lparr> data = [fromRepositoryData ((driver_row (generateSeedData ! 3))\<lparr>snapshot_col := JNull\<rparr>)],
         total_count = 2 \<rparr>"
  by (simp add: getAllForPolling_def select_for_polling_def count_for_polling_def bind_cursor_def
      bigint_in_def truthy_param_def example_pool_def example_timestamptz_def generateSeedData_def
      seed_record_def baseDate_def polling_where_def)

lemma seed_pair_after_feb5:
  "getAllForPolling (example_pool generateSeedData) ''tenant-acme''
     (Some ''2026-02-05T00:00:00Z'') (Some 2) (Some 0) =
   Inr \<lparr> data = map (\<lambda>r. fromRepositoryData ((driver_row r)\<lparr>snapshot_col := JNull\<rparr>))
                  [generateSeedData ! 1, generateSeedData ! 3],
         total_count = 2 \<rparr>"
  by (simp add: getAllForPolling_def select_for_polling_def count_for_polling_def bind_cursor_def
      bigint_in_def truthy_param_def example_pool_def example_timestamptz_def generateSeedData_def
      seed_record_def baseDate_def polling_where_def)




lemma draft_list_acme:
  "getAllForPolling (example_pool (draft_record # generateSeedData)) ''tenant-acme''
     None None None =
   Inr \<lparr> data = map (\<lambda>r. fromRepositoryData ((driver_row r)\<lparr>snapshot_col := JNull\<rparr>))
                  [generateSeedData ! 0, generateSeedData ! 1, generateSeedData ! 3],
         total_count = 3 \<rparr>"
  by (simp add: query_defs seed_defs)

lemma not_a_uuid: "\<not> isValidUUID ''not-a-uuid''"
  by code_simp

lemma seed_ids_valid:
  "isValidUUID ''550e8400-e29b-41d4-a716-446655440001''"
  "isValidUUID ''550e8400-e29b-41d4-a716-446655440003''"
  "isValidUUID ''550e8400-e29b-41d4-a716-446655449999''"
  by code_simp+

lemma seed_list_response:
  "controller_getAllForPolling no_fallback
     (PostgresExecutionProtocolRepository (example_pool generateSeedData))
     (example_request ''tenant-acme'') =
     ([CallGetAllForPolling ''tenant-acme'' None 50 0],
      \<lparr> status_code = 200,
        body = JObj [(''protocols'', JArr (map toListMetadata
                        (map (\<lambda>r. fromRepositoryData ((driver_row r)\<lparr>snapshot_col := JNull\<rparr>))
                           [generateSeedData ! 0, generateSeedData ! 1, generateSeedData ! 3]))),
                     (''pagination'', JObj [(''limit'', JNum 50), (''offset'', JNum 0),
                                            (''total'', JNum 3)])] \<rparr>)"
  by (simp add: handler_defs query_defs seed_defs Postgres_methods Let_def)

lemma pagination_examples:
  "parsedLimit (req\<lparr>query_limit := None\<rparr>) = 50"
  "parsedLimit (req\<lparr>query_limit := Some ''500''\<rparr>) = 100"
  "parsedLimit (req\<lparr>query_limit := Some ''100''\<rparr>) = 100"
  "parsedLimit (req\<lparr>query_limit := Some ''0''\<rparr>) = 50"
  "parsedLimit (req\<lparr>query_limit := Some ''abc''\<rparr>) = 50"
  "parsedOffset (req\<lparr>query_offset := None\<rparr>) = 0"
  "parsedOffset (req\<lparr>query_offset := Some ''-5''\<rparr>) = 0"
  "parsedOffset (req\<lparr>query_offset := Some ''0''\<rparr>) = 0"
  by (simp_all add: parsedLimit_def parsedOffset_def parseInt_def to_double_def or_default_def
      is_space_def digit_of_def)



section \<open>Tenant isolation\<close>

text \<open>
  C1. Let \<open>R\<close> be a stored record of a tenant other than \<open>T2\<close>, in a table whose \<open>id\<close> is
  a key, behind an engine that sorts. Then no list that \<open>getAllForPolling\<close> returns for
  \<open>T2\<close> has an item with \<open>R\<close>'s id; \<open>getSnapshotById\<close> asked by \<open>T2\<close> for \<open>R\<close>'s id
  answers \<open>null\<close>, the answer for an id that is not stored; the responses of the list
  handler and of the snapshot handler to a request of \<open>T2\<close> are those they give when
  \<open>R\<close> is deleted from the table, so nothing in them tells that \<open>R\<close> exists; and the
  snapshot handler answers a request of \<open>T2\<close> for \<open>R\<close>'s id with the 404 response
  \<open>Execution protocol not found\<close>.
\<close>

theorem tenant_isolation:
  assumes R: "R \<in> set (execution_protocols db)"
    and other: "tenant_id R \<noteq> T2"
    and pk: "distinct (map id_col (execution_protocols db))"
    and ord: "sorts_by_updated_at (order_by_updated_at db)"
  shows "(\<forall>updatedAfter limit offset res.
            getAllForPolling db T2 updatedAfter limit offset = Inr res \<longrightarrow>
            id_col R \<notin> set (map protocolId (data res)))
       \<and> (\<forall>ident. connected db \<and> uuid_in db ident = Some (id_col R) \<longrightarrow>
            getSnapshotById db ident T2 = Inr JNull)
       \<and> (\<forall>fallback req. req_tenantId req = Some T2 \<longrightarrow>
            controller_getAllForPolling fallback (PostgresExecutionProtocolRepository db) req =
            controller_getAllForPolling fallback
              (PostgresExecutionProtocolRepository
                 (db\<lparr>execution_protocols := removeAll R (execution_protocols db)\<rparr>)) req)
       \<and> (\<forall>req. req_tenantId req = Some T2 \<longrightarrow>
            controller_getSnapshotById (PostgresExecutionProtocolRepository db) req =
            controller_getSnapshotById
              (PostgresExecutionProtocolRepository
                 (db\<lparr>execution_protocols := removeAll R (execution_protocols db)\<rparr>)) req)
       \<and> (\<forall>req. req_tenantId req = Some T2 \<and> T2 \<noteq> [] \<and> isValidUUID (params_id req) \<and>
              connected db \<and> uuid_in db (params_id req) = Some (id_col R) \<longrightarrow>
            controller_getSnapshotById (PostgresExecutionProtocolRepository db) req =
              ([CallGetSnapshotById (params_id req) T2],
               error_response 404 ''Not found'' ''Execution protocol not found''))"
proof -
  let ?db' = "db\<lparr>execution_protocols := removeAll R (execution_protocols db)\<rparr>"
  from other have hidden: "tenant_id R \<noteq> T2 \<or> status_col R \<noteq> ''CLOSED''" by simp
  have listed: "id_col R \<notin> set (map protocolId (data res))"
    if ok: "getAllForPolling db T2 updatedAfter limit offset = Inr res"
    for updatedAfter limit offset res
  proof
    assume "id_col R \<in> set (map protocolId (data res))"
    then obtain p where p: "p \<in> set (data res)" and pid: "protocolId p = id_col R" by auto
    from ok ord p obtain r c where
      r: "r \<in> set (execution_protocols db)" and w: "polling_where T2 c r"
      and pr: "p = fromRepositoryData ((driver_row r)\<lparr>snapshot_col := JNull\<rparr>)"
      by (rule polled_item_row)
    from pr pid have "id_col r = id_col R" by (simp add: fromRepositoryData_simps driver_row_simps)
    with pk r R have "r = R" by (rule primary_key)
    with w other show False by (simp add: polling_where_def)
  qed
  have found: "getSnapshotById db ident T2 = Inr JNull"
    if "connected db \<and> uuid_in db ident = Some (id_col R)" for ident
    using select_by_id_hidden [OF pk R hidden, of ident] that
    by (simp add: getSnapshotById_def)
  have list_same: "controller_getAllForPolling fallback (PostgresExecutionProtocolRepository db) req =
      controller_getAllForPolling fallback (PostgresExecutionProtocolRepository ?db') req"
    if "req_tenantId req = Some T2" for fallback req
    using that
    by (simp add: controller_getAllForPolling_def Postgres_methods Let_def
        repository_invisible(1) [OF hidden])
  have snap_same: "controller_getSnapshotById (PostgresExecutionProtocolRepository db) req =
      controller_getSnapshotById (PostgresExecutionProtocolRepository ?db') req"
    if "req_tenantId req = Some T2" for req
    using that
    by (simp add: controller_getSnapshotById_def Postgres_methods Let_def
        repository_invisible(3) [OF hidden])
  have not_found: "controller_getSnapshotById (PostgresExecutionProtocolRepository db) req =
      ([CallGetSnapshotById (params_id req) T2],
       error_response 404 ''Not found'' ''Execution protocol not found'')"
    if "req_tenantId req = Some T2 \<and> T2 \<noteq> [] \<and> isValidUUID (params_id req) \<and>
        connected db \<and> uuid_in db (params_id req) = Some (id_col R)" for req
    using that found [of "params_id req"]
    by (simp add: controller_getSnapshotById_def Postgres_methods Let_def truthy_param_def)
  from listed found list_same snap_same not_found show ?thesis by (intro conjI allI impI)
qed

theorem tenant_isolation_witness:
  "generateSeedData ! 2 \<in> set (execution_protocols (example_pool generateSeedData)) \<and>
   tenant_id (generateSeedData ! 2) = ''tenant-globex'' \<and>
   distinct (map id_col (execution_protocols (example_pool generateSeedData))) \<and>
   sorts_by_updated_at (order_by_updated_at (example_pool generateSeedData)) \<and>
   (\<exists>res. getAllForPolling (example_pool generateSeedData) ''tenant-acme'' None None None =
            Inr res \<and>
          length (data res) = 3 \<and>
          ''550e8400-e29b-41d4-a716-446655440003'' \<notin> set (map protocolId (data res))) \<and>
   getSnapshotById (example_pool generateSeedData) ''550e8400-e29b-41d4-a716-446655440003''
     ''tenant-acme'' = Inr JNull \<and>
   getSnapshotById (example_pool generateSeedData) ''550e8400-e29b-41d4-a716-446655440003''
     ''tenant-globex'' = Inr (snapshot_col (generateSeedData ! 2)) \<and>
   controller_getSnapshotById (PostgresExecutionProtocolRepository (example_pool generateSeedData))
     ((example_request ''tenant-acme'')
        \<lparr>params_id := ''550e8400-e29b-41d4-a716-446655440003''\<rparr>) =
     ([CallGetSnapshotById ''550e8400-e29b-41d4-a716-446655440003'' ''tenant-acme''],
      error_response 404 ''Not found'' ''Execution protocol not found'')"
proof -
  let ?P = "example_pool generateSeedData"
  let ?R = "generateSeedData ! 2"
  have 1: "?R \<in> set (execution_protocols ?P)" by (simp add: seed_defs)
  have 2: "tenant_id ?R \<noteq> ''tenant-acme''" by (simp add: seed_defs)
  have 3: "distinct (map id_col (execution_protocols ?P))" by (simp add: seed_defs)
  have 4: "sorts_by_updated_at (order_by_updated_at ?P)" by (rule example_pool_sorts)
  have 5: "id_col ?R = ''550e8400-e29b-41d4-a716-446655440003''" by (simp add: seed_defs)
  have 6: "connected ?P \<and> uuid_in ?P ''550e8400-e29b-41d4-a716-446655440003'' = Some (id_col ?R)"
    by (simp add: seed_defs)
  note T = tenant_isolation [OF 1 2 3 4]
  from T [THEN conjunct1, rule_format, OF seed_list_acme] 5
  have a: "''550e8400-e29b-41d4-a716-446655440003'' \<notin> set (map protocolId (data
      \<lparr> data = map (\<lambda>r. fromRepositoryData ((driver_row r)\<lparr>snapshot_col := JNull\<rparr>))
                  [generateSeedData ! 0, generateSeedData ! 1, generateSeedData ! 3],
         total_count = 3 \<rparr>))"
    by simp
  from T [THEN conjunct2, THEN conjunct1, rule_format, OF 6]
  have b: "getSnapshotById ?P ''550e8400-e29b-41d4-a716-446655440003'' ''tenant-acme'' = Inr JNull" .
  have c: "getSnapshotById ?P ''550e8400-e29b-41d4-a716-446655440003'' ''tenant-globex'' =
           Inr (snapshot_col ?R)"
    by (simp add: query_defs seed_defs)
  have d: "tenant_id ?R = ''tenant-globex''" by (simp add: seed_defs)
  from a seed_list_acme have
    "\<exists>res. getAllForPolling ?P ''tenant-acme'' None None None = Inr res \<and>
          length (data res) = 3 \<and>
          ''550e8400-e29b-41d4-a716-446655440003'' \<notin> set (map protocolId (data res))"
    by simp
  moreover
  have 7: "req_tenantId ((example_request ''tenant-acme'')
               \<lparr>params_id := ''550e8400-e29b-41d4-a716-446655440003''\<rparr>) = Some ''tenant-acme'' \<and>
           ''tenant-acme'' \<noteq> [] \<and>
           isValidUUID (params_id ((example_request ''tenant-acme'')
               \<lparr>params_id := ''550e8400-e29b-41d4-a716-446655440003''\<rparr>)) \<and>
           connected ?P \<and>
           uuid_in ?P (params_id ((example_request ''tenant-acme'')
               \<lparr>params_id := ''550e8400-e29b-41d4-a716-446655440003''\<rparr>)) = Some (id_col ?R)"
    by (simp add: example_request_def seed_ids_valid seed_defs)
  from T [THEN conjunct2, THEN conjunct2, THEN conjunct2, THEN conjunct2, rule_format, OF 7]
  have "controller_getSnapshotById (PostgresExecutionProtocolRepository ?P)
     ((example_request ''tenant-acme'')
        \<lparr>params_id := ''550e8400-e29b-41d4-a716-446655440003''\<rparr>) =
     ([CallGetSnapshotById ''550e8400-e29b-41d4-a716-446655440003'' ''tenant-acme''],
      error_response 404 ''Not found'' ''Execution protocol not found'')"
    by (simp add: example_request_def)
  ultimately show ?thesis using 1 d 3 4 b c by (intro conjI)
qed

section \<open>Status filtering\<close>

text \<open>
  C2. Let \<open>R\<close> be a stored record whose status is not CLOSED, in a table whose \<open>id\<close> is a
  key, behind an engine that sorts. Whatever the requesting tenant: no list that
  \<open>getAllForPolling\<close> returns has an item with \<open>R\<close>'s id, and every item it returns has
  status CLOSED; \<open>getById\<close> asked for \<open>R\<close>'s id never returns an entity and
  \<open>getSnapshotById\<close> never returns anything but \<open>null\<close>; when the database answers, both
  answer \<open>null\<close>.
\<close>

theorem status_filtering:
  assumes R: "R \<in> set (execution_protocols db)"
    and unfinished: "status_col R \<noteq> ''CLOSED''"
    and pk: "distinct (map id_col (execution_protocols db))"
    and ord: "sorts_by_updated_at (order_by_updated_at db)"
  shows "(\<forall>tenant updatedAfter limit offset res.
            getAllForPolling db tenant updatedAfter limit offset = Inr res \<longrightarrow>
            id_col R \<notin> set (map protocolId (data res)) \<and>
            (\<forall>p \<in> set (data res). status p = ''CLOSED''))
       \<and> (\<forall>ident tenant. uuid_in db ident = Some (id_col R) \<longrightarrow>
            (\<forall>p. getById db ident tenant \<noteq> Inr (Some p)) \<and>
            (\<forall>snap. getSnapshotById db ident tenant = Inr snap \<longrightarrow> snap = JNull) \<and>
            (connected db \<longrightarrow>
               getById db ident tenant = Inr None \<and>
               getSnapshotById db ident tenant = Inr JNull))"
proof -
  have closed: "status p = ''CLOSED''"
    if ok: "getAllForPolling db tenant updatedAfter limit offset = Inr res"
      and p: "p \<in> set (data res)"
    for tenant updatedAfter limit offset res p
  proof -
    from ok ord p obtain r c where
      w: "polling_where tenant c r"
      and pr: "p = fromRepositoryData ((driver_row r)\<lparr>snapshot_col := JNull\<rparr>)"
      by (rule polled_item_row)
    then show ?thesis by (simp add: fromRepositoryData_simps driver_row_simps polling_where_def)
  qed
  have listed: "id_col R \<notin> set (map protocolId (data res))"
    if ok: "getAllForPolling db tenant updatedAfter limit offset = Inr res"
    for tenant updatedAfter limit offset res
  proof
    assume "id_col R \<in> set (map protocolId (data res))"
    then obtain p where p: "p \<in> set (data res)" and pid: "protocolId p = id_col R" by auto
    from ok ord p obtain r c where
      r: "r \<in> set (execution_protocols db)" and w: "polling_where tenant c r"
      and pr: "p = fromRepositoryData ((driver_row r)\<lparr>snapshot_col := JNull\<rparr>)"
      by (rule polled_item_row)
    from pr pid have "id_col r = id_col R" by (simp add: fromRepositoryData_simps driver_row_simps)
    with pk r R have "r = R" by (rule primary_key)
    with w unfinished show False by (simp add: polling_where_def)
  qed
  have by_id: "(\<forall>p. getById db ident tenant \<noteq> Inr (Some p)) \<and>
            (\<forall>snap. getSnapshotById db ident tenant = Inr snap \<longrightarrow> snap = JNull) \<and>
            (connected db \<longrightarrow>
               getById db ident tenant = Inr None \<and>
               getSnapshotById db ident tenant = Inr JNull)"
    if u: "uuid_in db ident = Some (id_col R)" for ident tenant
  proof (cases "connected db")
    case True
    from unfinished have "tenant_id R \<noteq> tenant \<or> status_col R \<noteq> ''CLOSED''" by simp
    from select_by_id_hidden [OF pk R this True u]
    show ?thesis by (simp add: getById_def getSnapshotById_def)
  next
    case False
    then show ?thesis by (simp add: getById_def getSnapshotById_def select_by_id_def)
  qed
  from closed listed by_id show ?thesis by blast
qed

theorem status_filtering_witness:
  "draft_record \<in> set (execution_protocols (example_pool (draft_record # generateSeedData))) \<and>
   status_col draft_record = ''IN_PROGRESS'' \<and>
   tenant_id draft_record = ''tenant-acme'' \<and>
   distinct (map id_col (execution_protocols (example_pool (draft_record # generateSeedData)))) \<and>
   sorts_by_updated_at (order_by_updated_at (example_pool (draft_record # generateSeedData))) \<and>
   (\<exists>res. getAllForPolling (example_pool (draft_record # generateSeedData)) ''tenant-acme''
             None None None = Inr res \<and>
          length (data res) = 3 \<and>
          id_col draft_record \<notin> set (map protocolId (data res)) \<and>
          map status (data res) = [''CLOSED'', ''CLOSED'', ''CLOSED'']) \<and>
   getById (example_pool (draft_record # generateSeedData)) (id_col draft_record)
     ''tenant-acme'' = Inr None \<and>
   getSnapshotById (example_pool (draft_record # generateSeedData)) (id_col draft_record)
     ''tenant-acme'' = Inr JNull"
proof -
  let ?P = "example_pool (draft_record # generateSeedData)"
  have 1: "draft_record \<in> set (execution_protocols ?P)" by (simp add: example_pool_def)
  have 2: "status_col draft_record \<noteq> ''CLOSED''" by (simp add: seed_defs)
  have 3: "distinct (map id_col (execution_protocols ?P))" by (simp add: seed_defs)
  have 4: "sorts_by_updated_at (order_by_updated_at ?P)" by (rule example_pool_sorts)
  have 5: "uuid_in ?P (id_col draft_record) = Some (id_col draft_record)"
    by (simp add: example_pool_def)
  have 6: "connected ?P" by (simp add: example_pool_def)
  note T = status_filtering [OF 1 2 3 4]
  from T [THEN conjunct1, rule_format, OF draft_list_acme]
  have a: "id_col draft_record \<notin> set (map protocolId (data
      \<lparr> data = map (\<lambda>r. fromRepositoryData ((driver_row r)\<lparr>snapshot_col := JNull\<rparr>))
                  [generateSeedData ! 0, generateSeedData ! 1, generateSeedData ! 3],
         total_count = 3 \<rparr>))"
    by blast
  have a': "map status (data
      \<lparr> data = map (\<lambda>r. fromRepositoryData ((driver_row r)\<lparr>snapshot_col := JNull\<rparr>))
                  [generateSeedData ! 0, generateSeedData ! 1, generateSeedData ! 3],
         total_count = 3 \<rparr>) = [''CLOSED'', ''CLOSED'', ''CLOSED'']"
    by (simp add: fromRepositoryData_simps driver_row_simps seed_defs)
  from T [THEN conjunct2, rule_format, OF 5, of "''tenant-acme''"] 6
  have b: "getById ?P (id_col draft_record) ''tenant-acme'' = Inr None"
    and c: "getSnapshotById ?P (id_col draft_record) ''tenant-acme'' = Inr JNull"
    by simp_all
  have d: "status_col draft_record = ''IN_PROGRESS''" "tenant_id draft_record = ''tenant-acme''"
    by (simp_all add: seed_defs)
  from a a' draft_list_acme have
    "\<exists>res. getAllForPolling ?P ''tenant-acme'' None None None = Inr res \<and>
          length (data res) = 3 \<and>
          id_col draft_record \<notin> set (map protocolId (data res)) \<and>
          map status (data res) = [''CLOSED'', ''CLOSED'', ''CLOSED'']"
    by simp
  with 1 d 3 4 b c show ?thesis by blast
qed

section \<open>The cursor\<close>





section \<open>Ordering\<close>

text \<open>
  C4, as the code has it. Behind an engine that sorts, the items of every successful poll
  are in ascending order of \<open>updatedAt\<close>. The query orders by \<open>updated_at\<close> alone: the
  order of two items with the same \<open>updatedAt\<close> is the engine's choice.
\<close>

theorem items_ascend:
  assumes ord: "sorts_by_updated_at (order_by_updated_at db)"
    and ok: "getAllForPolling db tenant updatedAfter limit offset = Inr res"
  shows "sorted (map updatedAt (data res))"
proof -
  from ok obtain c where
    d: "data res = map (\<lambda>r. fromRepositoryData ((driver_row r)\<lparr>snapshot_col := JNull\<rparr>))
       (take (nat (min (case limit of None \<Rightarrow> 50 | Some l \<Rightarrow> l) 100))
         (drop (nat (case offset of None \<Rightarrow> 0 | Some f \<Rightarrow> f))
           (order_by_updated_at db (filter (polling_where tenant c) (execution_protocols db)))))"
    by (rule getAllForPolling_success)
  let ?sorted = "order_by_updated_at db (filter (polling_where tenant c) (execution_protocols db))"
  have key: "updatedAt \<circ> (\<lambda>r. fromRepositoryData ((driver_row r)\<lparr>snapshot_col := JNull\<rparr>)) =
             (\<lambda>t. t div 1000) \<circ> updated_at"
    by (simp add: fun_eq_iff fromRepositoryData_simps driver_row_simps)
  from ord have "sorted (map updated_at ?sorted)" by (rule sorts_sorted)
  then have "sorted (map (\<lambda>t. t div 1000) (map updated_at ?sorted))"
    by (rule sorted_map_div)
  then have "sorted (take (nat (min (case limit of None \<Rightarrow> 50 | Some l \<Rightarrow> l) 100))
         (drop (nat (case offset of None \<Rightarrow> 0 | Some f \<Rightarrow> f))
            (map (\<lambda>t. t div 1000) (map updated_at ?sorted))))"
    by (intro sorted_wrt_take sorted_wrt_drop)
  then show ?thesis by (simp add: d key take_map drop_map)
qed

theorem items_ascend_witness:
  "sorts_by_updated_at (order_by_updated_at (example_pool (rev generateSeedData))) \<and>
   (\<exists>res. getAllForPolling (example_pool (rev generateSeedData)) ''tenant-acme''
             None None None = Inr res \<and>
          map updatedAt (data res) = [1769990400000, 1770336000000, 1770940800000] \<and>
          sorted (map updatedAt (data res)))"
proof -
  let ?P = "example_pool (rev generateSeedData)"
  let ?res = "\<lparr> data = map (\<lambda>r. fromRepositoryData ((driver_row r)\<lparr>snapshot_col := JNull\<rparr>))
                  [generateSeedData ! 0, generateSeedData ! 1, generateSeedData ! 3],
                total_count = 3 \<rparr>"
  have 1: "sorts_by_updated_at (order_by_updated_at ?P)" by (rule example_pool_sorts)
  have 2: "getAllForPolling ?P ''tenant-acme'' None None None = Inr ?res"
    by (simp add: query_defs seed_defs)
  have 3: "map updatedAt (data ?res) = [1769990400000, 1770336000000, 1770940800000]"
    by (simp add: fromRepositoryData_simps driver_row_simps seed_defs)
  from items_ascend [OF 1 2] 2 3
  have "getAllForPolling ?P ''tenant-acme'' None None None = Inr ?res \<and>
          map updatedAt (data ?res) = [1769990400000, 1770336000000, 1770940800000] \<and>
          sorted (map updatedAt (data ?res))"
    by (intro conjI)
  then have "\<exists>res. getAllForPolling ?P ''tenant-acme'' None None None = Inr res \<and>
          map updatedAt (data res) = [1769990400000, 1770336000000, 1770940800000] \<and>
          sorted (map updatedAt (data res))"
    by - (rule exI, assumption)
  with 1 show ?thesis by (intro conjI)
qed

text \<open>
  C4 as stated fails. The table holds the first seed record and a second record of the
  same tenant with the same \<open>updated_at\<close>. Two engines that both sort by \<open>updated_at\<close>
  list the two records in opposite orders; the first page (limit 1, offset 0) under the
  one and the second page (limit 1, offset 1) under the other hold the same record, and
  the other record is on neither.
\<close>

theorem tie_order_counterexample:
  "updated_at tied_record = updated_at (generateSeedData ! 0) \<and>
   sorts_by_updated_at (sort_key updated_at) \<and>
   sorts_by_updated_at sort_ties_reversed \<and>
   getAllForPolling (example_pool [generateSeedData ! 0, tied_record])
     ''tenant-acme'' None None None =
     Inr \<lparr> data = map (\<lambda>r. fromRepositoryData ((driver_row r)\<lparr>snapshot_col := JNull\<rparr>))
                    [generateSeedData ! 0, tied_record], total_count = 2 \<rparr> \<and>
   getAllForPolling
     ((example_pool [generateSeedData ! 0, tied_record])
        \<lparr>order_by_updated_at := sort_ties_reversed\<rparr>)
     ''tenant-acme'' None None None =
     Inr \<lparr> data = map (\<lambda>r. fromRepositoryData ((driver_row r)\<lparr>snapshot_col := JNull\<rparr>))
                    [tied_record, generateSeedData ! 0], total_count = 2 \<rparr> \<and>
   getAllForPolling (example_pool [generateSeedData ! 0, tied_record])
     ''tenant-acme'' None (Some 1) (Some 0) =
     Inr \<lparr> data = [fromRepositoryData ((driver_row (generateSeedData ! 0))\<lparr>snapshot_col := JNull\<rparr>)],
           total_count = 2 \<rparr> \<and>
   getAllForPolling
     ((example_pool [generateSeedData ! 0, tied_record])
        \<lparr>order_by_updated_at := sort_ties_reversed\<rparr>)
     ''tenant-acme'' None (Some 1) (Some 1) =
     Inr \<lparr> data = [fromRepositoryData ((driver_row (generateSeedData ! 0))\<lparr>snapshot_col := JNull\<rparr>)],
           total_count = 2 \<rparr>"
proof (intro conjI)
  show "updated_at tied_record = updated_at (generateSeedData ! 0)"
    by (simp add: seed_defs)
  show "sorts_by_updated_at (sort_key updated_at)" by (rule sort_key_sorts)
  show "sorts_by_updated_at sort_ties_reversed" by (rule sort_ties_reversed_sorts)
  show "getAllForPolling (example_pool [generateSeedData ! 0, tied_record])
     ''tenant-acme'' None None None =
     Inr \<lparr> data = map (\<lambda>r. fromRepositoryData ((driver_row r)\<lparr>snapshot_col := JNull\<rparr>))
                    [generateSeedData ! 0, tied_record], total_count = 2 \<rparr>"
    by (simp add: query_defs seed_defs)
  show "getAllForPolling
     ((example_pool [generateSeedData ! 0, tied_record])
        \<lparr>order_by_updated_at := sort_ties_reversed\<rparr>)
     ''tenant-acme'' None None None =
     Inr \<lparr> data = map (\<lambda>r. fromRepositoryData ((driver_row r)\<lparr>snapshot_col := JNull\<rparr>))
                    [tied_record, generateSeedData ! 0], total_count = 2 \<rparr>"
    by (simp add: query_defs seed_defs sort_ties_reversed_def)
  show "getAllForPolling (example_pool [generateSeedData ! 0, tied_record])
     ''tenant-acme'' None (Some 1) (Some 0) =
     Inr \<lparr> data = [fromRepositoryData ((driver_row (generateSeedData ! 0))\<lparr>snapshot_col := JNull\<rparr>)],
           total_count = 2 \<rparr>"
    by (simp add: query_defs seed_defs)
  show "getAllForPolling
     ((example_pool [generateSeedData ! 0, tied_record])
        \<lparr>order_by_updated_at := sort_ties_reversed\<rparr>)
     ''tenant-acme'' None (Some 1) (Some 1) =
     Inr \<lparr> data = [fromRepositoryData ((driver_row (generateSeedData ! 0))\<lparr>snapshot_col := JNull\<rparr>)],
           total_count = 2 \<rparr>"
    by (simp add: query_defs seed_defs sort_ties_reversed_def)
qed

section \<open>Pagination parameters\<close>

text \<open>
  C5 at \<open>limit=-5\<close>. \<open>parseInt\<close> gives -5, which is truthy and below 100, so \<open>parsedLimit\<close>
  is -5 and not the default 50; the repository sends \<open>LIMIT -5\<close>, the database refuses the
  query, and the handler answers 500. The request without \<open>limit\<close> is answered 200 with
  limit 50.
\<close>

theorem negative_limit_is_not_clamped:
  "parsedLimit ((example_request ''tenant-acme'')\<lparr>query_limit := Some ''-5''\<rparr>) = - 5 \<and>
   parsedLimit (example_request ''tenant-acme'') = 50 \<and>
   getAllForPolling (example_pool generateSeedData) ''tenant-acme'' None (Some (- 5)) (Some 0) =
     Inl InvalidRowCountInLimit \<and>
   controller_getAllForPolling no_fallback
     (PostgresExecutionProtocolRepository (example_pool generateSeedData))
     ((example_request ''tenant-acme'')\<lparr>query_limit := Some ''-5''\<rparr>) =
     ([CallGetAllForPolling ''tenant-acme'' None (- 5) 0],
      error_response 500 ''Internal server error'' ''Failed to retrieve execution protocols'') \<and>
   status_code (snd (controller_getAllForPolling no_fallback
     (PostgresExecutionProtocolRepository (example_pool generateSeedData))
     (example_request ''tenant-acme''))) = 200 \<and>
   property (property (body (snd (controller_getAllForPolling no_fallback
     (PostgresExecutionProtocolRepository (example_pool generateSeedData))
     (example_request ''tenant-acme'')))) ''pagination'') ''limit'' = JNum 50"
proof (intro conjI)
  show l: "parsedLimit ((example_request ''tenant-acme'')\<lparr>query_limit := Some ''-5''\<rparr>) = - 5"
    by (simp add: handler_defs)
  show d: "parsedLimit (example_request ''tenant-acme'') = 50"
    by (simp add: handler_defs)
  show q: "getAllForPolling (example_pool generateSeedData) ''tenant-acme'' None (Some (- 5))
      (Some 0) = Inl InvalidRowCountInLimit"
    by (simp add: query_defs seed_defs)
  show "controller_getAllForPolling no_fallback
     (PostgresExecutionProtocolRepository (example_pool generateSeedData))
     ((example_request ''tenant-acme'')\<lparr>query_limit := Some ''-5''\<rparr>) =
     ([CallGetAllForPolling ''tenant-acme'' None (- 5) 0],
      error_response 500 ''Internal server error'' ''Failed to retrieve execution protocols'')"
    by (simp add: handler_defs query_defs seed_defs Postgres_methods Let_def)
  have ok: "controller_getAllForPolling no_fallback
     (PostgresExecutionProtocolRepository (example_pool generateSeedData))
     (example_request ''tenant-acme'') =
     ([CallGetAllForPolling ''tenant-acme'' None 50 0],
      \<lparr> status_code = 200,
        body = JObj [(''protocols'', JArr (map toListMetadata
                        (map (\<lambda>r. fromRepositoryData ((driver_row r)\<lparr>snapshot_col := JNull\<rparr>))
                           [generateSeedData ! 0, generateSeedData ! 1, generateSeedData ! 3]))),
                     (''pagination'', JObj [(''limit'', JNum 50), (''offset'', JNum 0),
                                            (''total'', JNum 3)])] \<rparr>)"
    by (simp add: handler_defs query_defs seed_defs Postgres_methods Let_def)
  show "status_code (snd (controller_getAllForPolling no_fallback
     (PostgresExecutionProtocolRepository (example_pool generateSeedData))
     (example_request ''tenant-acme''))) = 200"
    by (simp add: ok)
  show "property (property (body (snd (controller_getAllForPolling no_fallback
     (PostgresExecutionProtocolRepository (example_pool generateSeedData))
     (example_request ''tenant-acme'')))) ''pagination'') ''limit'' = JNum 50"
    by (simp add: ok)
qed

section \<open>The list response\<close>

text \<open>
  C6, as the code has it. A successful list response has the body
  \<open>{protocols, pagination: {limit, offset, total}}\<close>: \<open>protocols\<close> holds, for each record
  the repository returned and in the same order, its list metadata, an object of exactly
  the properties \<open>id\<close>, \<open>siteId\<close>, \<open>plantId\<close>, \<open>status\<close>, \<open>closedAt\<close>, \<open>updatedAt\<close> taken
  from the record, without \<open>snapshot\<close>; \<open>limit\<close> and \<open>offset\<close> are the normalized
  parameters and \<open>total\<close> is the repository's total.
\<close>

theorem list_response_shape:
  assumes "status_code (snd (controller_getAllForPolling fallback repo req)) = 200"
  shows "\<exists>result.
     repo_getAllForPolling repo (the (req_tenantId req)) (query_updatedAfter req)
       (Some (parsedLimit req)) (Some (parsedOffset req)) = Inr result \<and>
     keys (body (snd (controller_getAllForPolling fallback repo req))) =
       [''protocols'', ''pagination''] \<and>
     property (body (snd (controller_getAllForPolling fallback repo req))) ''protocols'' =
       JArr (map toListMetadata (data result)) \<and>
     property (body (snd (controller_getAllForPolling fallback repo req))) ''pagination'' =
       JObj [(''limit'', JNum (parsedLimit req)), (''offset'', JNum (parsedOffset req)),
             (''total'', JNum (total_count result))] \<and>
     (\<forall>p \<in> set (data result).
        keys (toListMetadata p) =
          [''id'', ''siteId'', ''plantId'', ''status'', ''closedAt'', ''updatedAt''] \<and>
        property (toListMetadata p) ''id'' = JStr (protocolId p) \<and>
        property (toListMetadata p) ''siteId'' = js_string (siteId p) \<and>
        property (toListMetadata p) ''plantId'' = js_string (plantId p) \<and>
        property (toListMetadata p) ''status'' = JStr (status p) \<and>
        property (toListMetadata p) ''closedAt'' = js_date (closedAt p) \<and>
        property (toListMetadata p) ''updatedAt'' = JDate (updatedAt p) \<and>
        property (toListMetadata p) ''snapshot'' = JUndefined)"
proof -
  from assms obtain result where
    r: "repo_getAllForPolling repo (the (req_tenantId req)) (query_updatedAfter req)
       (Some (parsedLimit req)) (Some (parsedOffset req)) = Inr result"
    and b: "controller_getAllForPolling fallback repo req =
       ([CallGetAllForPolling (the (req_tenantId req)) (query_updatedAfter req)
           (parsedLimit req) (parsedOffset req)],
        \<lparr> status_code = 200,
          body = JObj [(''protocols'', JArr (map toListMetadata (data result))),
                       (''pagination'',
                          JObj [(''limit'', JNum (parsedLimit req)),
                                (''offset'', JNum (parsedOffset req)),
                                (''total'', JNum (total_count result))])] \<rparr>)"
    by (rule list_handler_ok)
  show ?thesis
    by (rule exI [of _ result]) (simp add: r b toListMetadata_shape)
qed

theorem list_response_shape_witness:
  "status_code (snd (controller_getAllForPolling no_fallback
     (PostgresExecutionProtocolRepository (example_pool generateSeedData))
     (example_request ''tenant-acme''))) = 200 \<and>
   keys (body (snd (controller_getAllForPolling no_fallback
     (PostgresExecutionProtocolRepository (example_pool generateSeedData))
     (example_request ''tenant-acme'')))) = [''protocols'', ''pagination''] \<and>
   property (body (snd (controller_getAllForPolling no_fallback
     (PostgresExecutionProtocolRepository (example_pool generateSeedData))
     (example_request ''tenant-acme'')))) ''pagination'' =
     JObj [(''limit'', JNum 50), (''offset'', JNum 0), (''total'', JNum 3)]"
proof -
  let ?repo = "PostgresExecutionProtocolRepository (example_pool generateSeedData)"
  let ?req = "example_request ''tenant-acme''"
  have 1: "status_code (snd (controller_getAllForPolling no_fallback ?repo ?req)) = 200"
    by (simp add: seed_list_response)
  have 2: "repo_getAllForPolling ?repo (the (req_tenantId ?req)) (query_updatedAfter ?req)
       (Some (parsedLimit ?req)) (Some (parsedOffset ?req)) =
       Inr \<lparr> data = map (\<lambda>r. fromRepositoryData ((driver_row r)\<lparr>snapshot_col := JNull\<rparr>))
                  [generateSeedData ! 0, generateSeedData ! 1, generateSeedData ! 3],
             total_count = 3 \<rparr>"
    by (simp add: handler_defs query_defs seed_defs Postgres_methods)
  have 3: "parsedLimit ?req = 50" "parsedOffset ?req = 0" by (simp_all add: handler_defs)
  from list_response_shape [OF 1] 2 3
  have "keys (body (snd (controller_getAllForPolling no_fallback ?repo ?req))) =
          [''protocols'', ''pagination''] \<and>
        property (body (snd (controller_getAllForPolling no_fallback ?repo ?req)))
          ''pagination'' = JObj [(''limit'', JNum 50), (''offset'', JNum 0), (''total'', JNum 3)]"
    by auto
  with 1 show ?thesis by (intro conjI) simp_all
qed

text \<open>
  C6 as stated fails on the name of the array: the body of a successful list response has
  the properties \<open>protocols\<close> and \<open>pagination\<close>, and none called \<open>items\<close>.
\<close>

theorem list_body_has_no_items:
  "status_code (snd (controller_getAllForPolling no_fallback
     (PostgresExecutionProtocolRepository (example_pool generateSeedData))
     (example_request ''tenant-acme''))) = 200 \<and>
   keys (body (snd (controller_getAllForPolling no_fallback
     (PostgresExecutionProtocolRepository (example_pool generateSeedData))
     (example_request ''tenant-acme'')))) = [''protocols'', ''pagination''] \<and>
   property (body (snd (controller_getAllForPolling no_fallback
     (PostgresExecutionProtocolRepository (example_pool generateSeedData))
     (example_request ''tenant-acme'')))) ''items'' = JUndefined"
  by (simp add: seed_list_response)

section \<open>Pagination consistency\<close>

text \<open>
  C7. The total that \<open>getAllForPolling\<close> returns beside the items is the number of stored
  records of the tenant with status CLOSED and, when a cursor is supplied, with
  \<open>updated_at\<close> after the cursor; every other successful call with the same tenant and
  cursor returns the same total, whatever its limit and offset.
\<close>

theorem total_counts_the_filter:
  assumes "getAllForPolling db tenant updatedAfter limit offset = Inr res"
  shows "(\<not> truthy_param updatedAfter \<longrightarrow>
            total_count res =
              int (length (filter (\<lambda>r. tenant_id r = tenant \<and> status_col r = ''CLOSED'')
                     (execution_protocols db))))
       \<and> (\<forall>s c. updatedAfter = Some s \<and> s \<noteq> [] \<and> timestamptz_in db s = Some c \<longrightarrow>
            total_count res =
              int (length (filter (\<lambda>r. tenant_id r = tenant \<and> status_col r = ''CLOSED'' \<and>
                                       c < updated_at r) (execution_protocols db))))
       \<and> (\<forall>limit' offset' res'.
            getAllForPolling db tenant updatedAfter limit' offset' = Inr res' \<longrightarrow>
            total_count res' = total_count res)"
proof -
  from assms obtain k where
    k: "bind_cursor db (if truthy_param updatedAfter then updatedAfter else None) = Inr k"
    and t: "total_count res =
              int (length (filter (polling_where tenant k) (execution_protocols db)))"
    by (rule getAllForPolling_success)
  have absent: "total_count res =
      int (length (filter (\<lambda>r. tenant_id r = tenant \<and> status_col r = ''CLOSED'')
             (execution_protocols db)))" if "\<not> truthy_param updatedAfter"
    using bind_cursor_absent [OF that k] t by (simp add: polling_where_None)
  have present: "total_count res =
      int (length (filter (\<lambda>r. tenant_id r = tenant \<and> status_col r = ''CLOSED'' \<and>
                               c < updated_at r) (execution_protocols db)))"
    if "updatedAfter = Some s" "s \<noteq> []" "timestamptz_in db s = Some c" for s c
  proof -
    from k have "bind_cursor db (if truthy_param (Some s) then Some s else None) = Inr k"
      unfolding that(1) .
    from bind_cursor_present [OF that(2) this] that(3) have "k = Some c" by simp
    with t show ?thesis by (simp add: polling_where_Some)
  qed
  have same: "total_count res' = total_count res"
    if "getAllForPolling db tenant updatedAfter limit' offset' = Inr res'" for limit' offset' res'
  proof -
    from that obtain k' where
      "bind_cursor db (if truthy_param updatedAfter then updatedAfter else None) = Inr k'"
      "total_count res' =
         int (length (filter (polling_where tenant k') (execution_protocols db)))"
      by (rule getAllForPolling_success)
    with k t show ?thesis by simp
  qed
  from absent present same show ?thesis by (intro conjI allI impI) auto
qed

theorem total_counts_the_filter_witness:
  "\<exists>res res'.
     getAllForPolling (example_pool generateSeedData) ''tenant-acme''
       (Some ''2026-02-05T00:00:00Z'') (Some 1) (Some 1) = Inr res \<and>
     getAllForPolling (example_pool generateSeedData) ''tenant-acme''
       (Some ''2026-02-05T00:00:00Z'') (Some 2) (Some 0) = Inr res' \<and>
     total_count res =
       int (length (filter (\<lambda>r. tenant_id r = ''tenant-acme'' \<and> status_col r = ''CLOSED'' \<and>
                                1770249600000000 < updated_at r) generateSeedData)) \<and>
     total_count res' = total_count res"
proof -
  note T = total_counts_the_filter [OF seed_page_after_feb5]
  have c: "timestamptz_in (example_pool generateSeedData) ''2026-02-05T00:00:00Z'' =
             Some 1770249600000000"
    by (simp add: example_pool_def example_timestamptz_def)
  from T [THEN conjunct2, THEN conjunct1, rule_format,
      of "''2026-02-05T00:00:00Z''" 1770249600000000] c
  have 1: "total_count \<lparr> data = [fromRepositoryData
               ((driver_row (generateSeedData ! 3))\<lparr>snapshot_col := JNull\<rparr>)], total_count = 2 \<rparr> =
       int (length (filter (\<lambda>r. tenant_id r = ''tenant-acme'' \<and> status_col r = ''CLOSED'' \<and>
                                1770249600000000 < updated_at r) generateSeedData))"
    by (simp add: example_pool_def)
  from T [THEN conjunct2, THEN conjunct2, rule_format, OF seed_pair_after_feb5]
  have 2: "total_count \<lparr> data = map (\<lambda>r. fromRepositoryData ((driver_row r)\<lparr>snapshot_col := JNull\<rparr>))
                  [generateSeedData ! 1, generateSeedData ! 3], total_count = 2 \<rparr> =
           total_count \<lparr> data = [fromRepositoryData
               ((driver_row (generateSeedData ! 3))\<lparr>snapshot_col := JNull\<rparr>)], total_count = 2 \<rparr>" .
  from seed_page_after_feb5 seed_pair_after_feb5 1 2 show ?thesis by blast
qed

section \<open>Malformed identifiers\<close>

text \<open>
  C8, as the code has it. For a request with a tenant context whose id is not a UUID v4,
  the snapshot handler calls no repository method and answers 404 with error
  \<open>Not found\<close> and message \<open>Invalid protocol ID format\<close>. For a well-formed id for which the
  repository answers \<open>null\<close> it answers 404 with the same error and the message
  \<open>Execution protocol not found\<close>; behind PostgreSQL that is the answer whenever no stored
  row has the id, the tenant and status CLOSED. The two responses agree in status and
  error and differ in their message.
\<close>

theorem malformed_id_is_not_found:
  assumes tenant: "truthy_param (req_tenantId req)"
    and malformed: "\<not> isValidUUID (params_id req)"
  shows "controller_getSnapshotById repo req =
           ([], error_response 404 ''Not found'' ''Invalid protocol ID format'')
       \<and> (\<forall>req' :: request. truthy_param (req_tenantId req') \<and> isValidUUID (params_id req') \<and>
              repo_getSnapshotById repo (params_id req') (the (req_tenantId req')) = Inr JNull \<longrightarrow>
              snd (controller_getSnapshotById repo req') =
                error_response 404 ''Not found'' ''Execution protocol not found'')
       \<and> (\<forall>db (req' :: request) u. truthy_param (req_tenantId req') \<and> isValidUUID (params_id req') \<and>
              connected db \<and> uuid_in db (params_id req') = Some u \<and>
              (\<forall>r \<in> set (execution_protocols db).
                  \<not> (id_col r = u \<and> tenant_id r = the (req_tenantId req') \<and>
                     status_col r = ''CLOSED'')) \<longrightarrow>
              snd (controller_getSnapshotById (PostgresExecutionProtocolRepository db) req') =
                error_response 404 ''Not found'' ''Execution protocol not found'')
       \<and> status_code (error_response 404 ''Not found'' ''Invalid protocol ID format'') =
           status_code (error_response 404 ''Not found'' ''Execution protocol not found'')
       \<and> property (body (error_response 404 ''Not found'' ''Invalid protocol ID format'')) ''error'' =
           property (body (error_response 404 ''Not found'' ''Execution protocol not found''))
             ''error''"
proof (intro conjI allI impI)
  from tenant malformed show "controller_getSnapshotById repo req =
      ([], error_response 404 ''Not found'' ''Invalid protocol ID format'')"
    by (simp add: controller_getSnapshotById_def)
next
  fix req' :: request
  assume "truthy_param (req_tenantId req') \<and> isValidUUID (params_id req') \<and>
    repo_getSnapshotById repo (params_id req') (the (req_tenantId req')) = Inr JNull"
  then show "snd (controller_getSnapshotById repo req') =
      error_response 404 ''Not found'' ''Execution protocol not found''"
    by (simp add: controller_getSnapshotById_def)
next
  fix db :: pool and req' :: request and u
  assume a: "truthy_param (req_tenantId req') \<and> isValidUUID (params_id req') \<and>
    connected db \<and> uuid_in db (params_id req') = Some u \<and>
    (\<forall>r \<in> set (execution_protocols db).
        \<not> (id_col r = u \<and> tenant_id r = the (req_tenantId req') \<and> status_col r = ''CLOSED''))"
  then have "filter (\<lambda>r. id_col r = u \<and> tenant_id r = the (req_tenantId req') \<and>
                         status_col r = ''CLOSED'') (execution_protocols db) = []"
    by (simp add: filter_empty_conv)
  with a have "getSnapshotById db (params_id req') (the (req_tenantId req')) = Inr JNull"
    by (simp add: getSnapshotById_def select_by_id_def)
  with a show "snd (controller_getSnapshotById (PostgresExecutionProtocolRepository db) req') =
      error_response 404 ''Not found'' ''Execution protocol not found''"
    by (simp add: controller_getSnapshotById_def Postgres_methods)
next
  show "status_code (error_response 404 ''Not found'' ''Invalid protocol ID format'') =
        status_code (error_response 404 ''Not found'' ''Execution protocol not found'')"
    by (simp add: error_response_def)
next
  show "property (body (error_response 404 ''Not found'' ''Invalid protocol ID format'')) ''error'' =
        property (body (error_response 404 ''Not found'' ''Execution protocol not found''))
          ''error''"
    by (simp add: error_response_def)
qed

theorem malformed_id_is_not_found_witness:
  "truthy_param (req_tenantId ((example_request ''tenant-acme'')\<lparr>params_id := ''not-a-uuid''\<rparr>)) \<and>
   \<not> isValidUUID (params_id ((example_request ''tenant-acme'')\<lparr>params_id := ''not-a-uuid''\<rparr>)) \<and>
   controller_getSnapshotById (PostgresExecutionProtocolRepository (example_pool generateSeedData))
     ((example_request ''tenant-acme'')\<lparr>params_id := ''not-a-uuid''\<rparr>) =
     ([], error_response 404 ''Not found'' ''Invalid protocol ID format'') \<and>
   snd (controller_getSnapshotById
     (PostgresExecutionProtocolRepository (example_pool generateSeedData))
     ((example_request ''tenant-acme'')
        \<lparr>params_id := ''550e8400-e29b-41d4-a716-446655440003''\<rparr>)) =
     error_response 404 ''Not found'' ''Execution protocol not found''"
proof -
  let ?P = "example_pool generateSeedData"
  let ?bad = "(example_request ''tenant-acme'')\<lparr>params_id := ''not-a-uuid''\<rparr>"
  let ?other = "(example_request ''tenant-acme'')
                  \<lparr>params_id := ''550e8400-e29b-41d4-a716-446655440003''\<rparr>"
  have 1: "truthy_param (req_tenantId ?bad)"
    by (simp add: example_request_def truthy_param_def)
  have 2: "\<not> isValidUUID (params_id ?bad)" by (simp add: not_a_uuid)
  note T = malformed_id_is_not_found [OF 1 2, of "PostgresExecutionProtocolRepository ?P"]
  have 3: "truthy_param (req_tenantId ?other) \<and> isValidUUID (params_id ?other) \<and>
    connected ?P \<and>
    uuid_in ?P (params_id ?other) = Some ''550e8400-e29b-41d4-a716-446655440003'' \<and>
    (\<forall>r \<in> set (execution_protocols ?P).
        \<not> (id_col r = ''550e8400-e29b-41d4-a716-446655440003'' \<and>
           tenant_id r = the (req_tenantId ?other) \<and> status_col r = ''CLOSED''))"
    by (simp add: example_request_def truthy_param_def seed_ids_valid seed_defs)
  from T [THEN conjunct2, THEN conjunct2, THEN conjunct1, rule_format, OF 3]
  have 4: "snd (controller_getSnapshotById (PostgresExecutionProtocolRepository ?P) ?other) =
      error_response 404 ''Not found'' ''Execution protocol not found''" .
  from 1 2 T [THEN conjunct1] 4 show ?thesis by (intro conjI)
qed

text \<open>
  C8 as stated fails on the last part: the response to the id \<open>not-a-uuid\<close> and the
  response to a well-formed id that is not stored are both 404, and they are not the same
  response, since their messages differ.
\<close>

theorem malformed_id_is_told_apart:
  "snd (controller_getSnapshotById
     (PostgresExecutionProtocolRepository (example_pool generateSeedData))
     ((example_request ''tenant-acme'')\<lparr>params_id := ''not-a-uuid''\<rparr>)) =
     \<lparr> status_code = 404,
       body = JObj [(''error'', JStr ''Not found''),
                    (''message'', JStr ''Invalid protocol ID format'')] \<rparr> \<and>
   snd (controller_getSnapshotById
     (PostgresExecutionProtocolRepository (example_pool generateSeedData))
     ((example_request ''tenant-acme'')
        \<lparr>params_id := ''550e8400-e29b-41d4-a716-446655449999''\<rparr>)) =
     \<lparr> status_code = 404,
       body = JObj [(''error'', JStr ''Not found''),
                    (''message'', JStr ''Execution protocol not found'')] \<rparr> \<and>
   snd (controller_getSnapshotById
     (PostgresExecutionProtocolRepository (example_pool generateSeedData))
     ((example_request ''tenant-acme'')\<lparr>params_id := ''not-a-uuid''\<rparr>)) \<noteq>
   snd (controller_getSnapshotById
     (PostgresExecutionProtocolRepository (example_pool generateSeedData))
     ((example_request ''tenant-acme'')
        \<lparr>params_id := ''550e8400-e29b-41d4-a716-446655449999''\<rparr>))"
proof -
  have a: "snd (controller_getSnapshotById
     (PostgresExecutionProtocolRepository (example_pool generateSeedData))
     ((example_request ''tenant-acme'')\<lparr>params_id := ''not-a-uuid''\<rparr>)) =
     \<lparr> status_code = 404,
       body = JObj [(''error'', JStr ''Not found''),
                    (''message'', JStr ''Invalid protocol ID format'')] \<rparr>"
    by (simp add: controller_getSnapshotById_def not_a_uuid example_request_def
        truthy_param_def error_response_def)
  have b: "snd (controller_getSnapshotById
     (PostgresExecutionProtocolRepository (example_pool generateSeedData))
     ((example_request ''tenant-acme'')
        \<lparr>params_id := ''550e8400-e29b-41d4-a716-446655449999''\<rparr>)) =
     \<lparr> status_code = 404,
       body = JObj [(''error'', JStr ''Not found''),
                    (''message'', JStr ''Execution protocol not found'')] \<rparr>"
    by (simp add: controller_getSnapshotById_def seed_ids_valid example_request_def
        error_response_def Postgres_methods query_defs seed_defs)
  show ?thesis unfolding a b by simp
qed

section \<open>Malformed cursors\<close>





section \<open>The two snapshot routes\<close>

text \<open>
  C10, as the code has it. For every repository and request the handlers \<open>getById\<close> and
  \<open>getSnapshotById\<close> make the same repository calls (none, or one call of the repository's
  \<open>getSnapshotById\<close>) and answer with the same status; unless that status is 500 their
  responses are equal, and when it is 500 both carry the error \<open>Internal server error\<close>.
  No route calls the repository's \<open>getById\<close>: it is in no route's calls, and replacing it
  changes no response.
\<close>

theorem by_id_is_the_snapshot_handler:
  "fst (controller_getById repo req) = fst (controller_getSnapshotById repo req)
   \<and> status_code (snd (controller_getById repo req)) =
       status_code (snd (controller_getSnapshotById repo req))
   \<and> (status_code (snd (controller_getById repo req)) \<noteq> 500 \<longrightarrow>
        controller_getById repo req = controller_getSnapshotById repo req)
   \<and> (status_code (snd (controller_getById repo req)) = 500 \<longrightarrow>
        property (body (snd (controller_getById repo req))) ''error'' =
          JStr ''Internal server error'' \<and>
        property (body (snd (controller_getSnapshotById repo req))) ''error'' =
          JStr ''Internal server error'')
   \<and> (\<forall>rt ident tenant.
        CallGetById ident tenant \<notin>
          set (fst (createExecutionProtocolRoutes fallback repo rt req)))
   \<and> (\<forall>rt f.
        createExecutionProtocolRoutes fallback (repo\<lparr>repo_getById := f\<rparr>) rt req =
        createExecutionProtocolRoutes fallback repo rt req)"
proof -
  let ?fails = "truthy_param (req_tenantId req) \<and> isValidUUID (params_id req) \<and>
      (\<exists>e. repo_getSnapshotById repo (params_id req) (the (req_tenantId req)) = Inl e)"
  have both: "fst (controller_getById repo req) = fst (controller_getSnapshotById repo req) \<and>
      status_code (snd (controller_getById repo req)) =
        status_code (snd (controller_getSnapshotById repo req)) \<and>
      (status_code (snd (controller_getById repo req)) \<noteq> 500 \<longrightarrow>
        controller_getById repo req = controller_getSnapshotById repo req) \<and>
      (status_code (snd (controller_getById repo req)) = 500 \<longrightarrow>
        property (body (snd (controller_getById repo req))) ''error'' =
          JStr ''Internal server error'' \<and>
        property (body (snd (controller_getSnapshotById repo req))) ''error'' =
          JStr ''Internal server error'')"
  proof (cases ?fails)
    case True
    then obtain e where
      "truthy_param (req_tenantId req)" "isValidUUID (params_id req)"
      "repo_getSnapshotById repo (params_id req) (the (req_tenantId req)) = Inl e"
      by blast
    from snapshot_handlers_failure [OF this] show ?thesis
      by (simp add: error_response_def)
  next
    case False
    note agree = snapshot_handlers_agree [OF this]
    from agree have eq: "controller_getById repo req = controller_getSnapshotById repo req"
      by (rule conjunct1)
    from agree have ne: "status_code (snd (controller_getById repo req)) \<noteq> 500"
      by (rule conjunct2)
    have 1: "fst (controller_getById repo req) = fst (controller_getSnapshotById repo req)"
      by (simp only: eq)
    have 2: "status_code (snd (controller_getById repo req)) =
        status_code (snd (controller_getSnapshotById repo req))"
      by (simp only: eq)
    have 3: "status_code (snd (controller_getById repo req)) \<noteq> 500 \<longrightarrow>
        controller_getById repo req = controller_getSnapshotById repo req"
      using eq by (rule impI)
    have 4: "status_code (snd (controller_getById repo req)) = 500 \<longrightarrow>
        property (body (snd (controller_getById repo req))) ''error'' =
          JStr ''Internal server error'' \<and>
        property (body (snd (controller_getSnapshotById repo req))) ''error'' =
          JStr ''Internal server error''"
      using ne by blast
    from 1 2 3 4 show ?thesis by (intro conjI)
  qed
  have calls: "CallGetById ident tenant \<notin>
      set (fst (createExecutionProtocolRoutes fallback repo rt req))" for rt ident tenant
    by (cases rt)
       (simp_all add: createExecutionProtocolRoutes_def controller_getAllForPolling_def
          controller_getById_def controller_getSnapshotById_def Let_def)
  have unused: "createExecutionProtocolRoutes fallback (repo\<lparr>repo_getById := f\<rparr>) rt req =
      createExecutionProtocolRoutes fallback repo rt req" for rt f
    by (cases rt)
       (simp_all add: createExecutionProtocolRoutes_def controller_getAllForPolling_def
          controller_getById_def controller_getSnapshotById_def Let_def)
  note c1 = both [THEN conjunct1]
  note c2 = both [THEN conjunct2, THEN conjunct1]
  note c3 = both [THEN conjunct2, THEN conjunct2, THEN conjunct1]
  note c4 = both [THEN conjunct2, THEN conjunct2, THEN conjunct2]
  show ?thesis
    by (intro conjI allI) (rule c1 c2 c3 c4 calls unused)+
qed

theorem by_id_is_the_snapshot_handler_witness:
  "status_code (snd (controller_getById
     (PostgresExecutionProtocolRepository (example_pool generateSeedData))
     (example_request ''tenant-acme''))) = 200 \<and>
   controller_getById (PostgresExecutionProtocolRepository (example_pool generateSeedData))
     (example_request ''tenant-acme'') =
   controller_getSnapshotById (PostgresExecutionProtocolRepository (example_pool generateSeedData))
     (example_request ''tenant-acme'') \<and>
   controller_getSnapshotById (PostgresExecutionProtocolRepository (example_pool generateSeedData))
     (example_request ''tenant-acme'') =
     ([CallGetSnapshotById ''550e8400-e29b-41d4-a716-446655440001'' ''tenant-acme''],
      \<lparr> status_code = 200, body = snapshot_col (generateSeedData ! 0) \<rparr>)"
proof -
  let ?repo = "PostgresExecutionProtocolRepository (example_pool generateSeedData)"
  let ?req = "example_request ''tenant-acme''"
  have 1: "controller_getById ?repo ?req =
     ([CallGetSnapshotById ''550e8400-e29b-41d4-a716-446655440001'' ''tenant-acme''],
      \<lparr> status_code = 200, body = snapshot_col (generateSeedData ! 0) \<rparr>)"
    by (simp add: controller_getById_def example_request_def seed_ids_valid
        Postgres_methods query_defs seed_defs Let_def)
  then have 2: "status_code (snd (controller_getById ?repo ?req)) = 200" by simp
  then have 3: "status_code (snd (controller_getById ?repo ?req)) \<noteq> 500" by simp
  from by_id_is_the_snapshot_handler
         [of ?repo ?req, THEN conjunct2, THEN conjunct2, THEN conjunct1] 3
  have 4: "controller_getById ?repo ?req = controller_getSnapshotById ?repo ?req" by blast
  with 1 have 5: "controller_getSnapshotById ?repo ?req =
     ([CallGetSnapshotById ''550e8400-e29b-41d4-a716-446655440001'' ''tenant-acme''],
      \<lparr> status_code = 200, body = snapshot_col (generateSeedData ! 0) \<rparr>)"
    by simp
  from 2 4 5 show ?thesis by (intro conjI)
qed

text \<open>
  C10 as stated fails when the repository call throws (here: the database cannot be
  reached). Both handlers answer 500, with different bodies.
\<close>

theorem failure_messages_differ:
  "controller_getById
     (PostgresExecutionProtocolRepository ((example_pool generateSeedData)\<lparr>connected := False\<rparr>))
     (example_request ''tenant-acme'') =
     ([CallGetSnapshotById ''550e8400-e29b-41d4-a716-446655440001'' ''tenant-acme''],
      \<lparr> status_code = 500,
        body = JObj [(''error'', JStr ''Internal server error''),
                     (''message'', JStr ''Failed to retrieve execution protocol'')] \<rparr>) \<and>
   controller_getSnapshotById
     (PostgresExecutionProtocolRepository ((example_pool generateSeedData)\<lparr>connected := False\<rparr>))
     (example_request ''tenant-acme'') =
     ([CallGetSnapshotById ''550e8400-e29b-41d4-a716-446655440001'' ''tenant-acme''],
      \<lparr> status_code = 500,
        body = JObj [(''error'', JStr ''Internal server error''),
                     (''message'', JStr ''Failed to retrieve execution protocol snapshot'')] \<rparr>) \<and>
   controller_getById
     (PostgresExecutionProtocolRepository ((example_pool generateSeedData)\<lparr>connected := False\<rparr>))
     (example_request ''tenant-acme'') \<noteq>
   controller_getSnapshotById
     (PostgresExecutionProtocolRepository ((example_pool generateSeedData)\<lparr>connected := False\<rparr>))
     (example_request ''tenant-acme'')"
proof -
  have a: "controller_getById
     (PostgresExecutionProtocolRepository ((example_pool generateSeedData)\<lparr>connected := False\<rparr>))
     (example_request ''tenant-acme'') =
     ([CallGetSnapshotById ''550e8400-e29b-41d4-a716-446655440001'' ''tenant-acme''],
      \<lparr> status_code = 500,
        body = JObj [(''error'', JStr ''Internal server error''),
                     (''message'', JStr ''Failed to retrieve execution protocol'')] \<rparr>)"
    by (simp add: controller_getById_def example_request_def seed_ids_valid error_response_def
        Postgres_methods query_defs seed_defs Let_def)
  have b: "controller_getSnapshotById
     (PostgresExecutionProtocolRepository ((example_pool generateSeedData)\<lparr>connected := False\<rparr>))
     (example_request ''tenant-acme'') =
     ([CallGetSnapshotById ''550e8400-e29b-41d4-a716-446655440001'' ''tenant-acme''],
      \<lparr> status_code = 500,
        body = JObj [(''error'', JStr ''Internal server error''),
                     (''message'', JStr ''Failed to retrieve execution protocol snapshot'')] \<rparr>)"
    by (simp add: controller_getSnapshotById_def example_request_def seed_ids_valid
        error_response_def Postgres_methods query_defs seed_defs Let_def)
  show ?thesis unfolding a b by simp
qed

end
